theory Spec2Isabelle
  imports Complex_Main
begin

section \<open>Trajectory planner (src/emc/kinematics/tp.c)\<close>

text \<open>
  A shallow embedding of the trajectory planner of tp.c. The C code mutates a
  \<^verbatim>\<open>TP_STRUCT\<close> through a pointer, segments (\<^verbatim>\<open>TC_STRUCT\<close>) that live in the
  planner's queue, and two process-wide objects (\<^verbatim>\<open>emcmotStatus\<close> and
  \<^verbatim>\<open>syncdio\<close>). Here every function takes the objects it reads and returns the
  objects it writes, next to its C return value.

  Conventions of the embedding:
  \<^item> a C \<^verbatim>\<open>double\<close> is a \<^typ>\<open>real\<close>: comparisons, sums and products are the exact
    ones, so rounding, infinities and NaN are outside the model; a quotient by 0
    is 0 here, so the lemmas on the sample-rate cap assume a positive cycle time,
    and the closed examples divide by non-zero numbers only;
  \<^item> a C \<^verbatim>\<open>int\<close> or \<^verbatim>\<open>char\<close> is an \<^typ>\<open>int\<close>; a flag is true when it is not 0;
  \<^item> a pointer that the code tests against NULL is an \<^typ>\<open>'a option\<close>;
  \<^item> the headers tc.h, tp.h, posemath.h and motion.h and the files tc.c and
    posemath.c are not part of the sources at hand. Their macro constants and the
    functions of theirs that have no closed form in the specification are fields of
    the record \<open>ext\<close> below, and every function of tp.c takes that record as its
    first argument.
\<close>

subsection \<open>Poses and geometric primitives\<close>

record PmCartesian =
  cart_x :: real
  cart_y :: real
  cart_z :: real

record EmcPose =
  tran :: PmCartesian
  pose_a :: real
  pose_b :: real
  pose_c :: real
  pose_u :: real
  pose_v :: real
  pose_w :: real

record PmCartLine =
  line_start :: PmCartesian
  line_end :: PmCartesian
  uVec :: PmCartesian
  tmag :: real
  tmag_zero :: int

record PmCircle =
  center :: PmCartesian
  normal :: PmCartesian
  rTan :: PmCartesian
  rPerp :: PmCartesian
  rHelix :: PmCartesian
  radius :: real
  angle :: real
  spiral :: real

subsection \<open>Segments\<close>

text \<open>The staged digital and analog outputs (\<^verbatim>\<open>syncdio_t\<close>).\<close>

record syncdio_t =
  anychanged :: int
  dio_mask :: int
  aio_mask :: int
  dios :: "int list"
  aios :: "real list"

text \<open>
  The members of the union \<^verbatim>\<open>tc->coords\<close>. The C code reads the union through
  \<^verbatim>\<open>coords.line\<close> without looking at the segment's kind first
  (\<^verbatim>\<open>tpCheckNeedBlendArc\<close>); what it then sees for a circle or a rigid tap depends
  on the layout of the union. The selector \<open>line_of\<close> leaves that value
  unspecified, so a theorem about it holds for whatever the bytes are.
\<close>

record PmLine9 =
  l_xyz :: PmCartLine
  l_abc :: PmCartLine
  l_uvw :: PmCartLine

record PmCircle9 =
  c_xyz :: PmCircle
  c_abc :: PmCartLine
  c_uvw :: PmCartLine

record PmRigidTap =
  r_xyz :: PmCartLine
  r_abc :: PmCartesian
  r_uvw :: PmCartesian
  reversal_target :: real
  tap_state :: int

datatype tc_coords =
  Line (line_of: PmLine9)
  | Circle (circle_of: PmCircle9)
  | RigidTap (rigidtap_of: PmRigidTap)

record TC_STRUCT =
  cycle_time :: real
  progress :: real
  target :: real
  reqvel :: real
  maxaccel :: real
  maxvel :: real
  currentvel :: real
  finalvel :: real
  accel_scale :: real
  tc_id :: int
  coords :: tc_coords
  motion_type :: int
  active :: int
  canon_motion_type :: int
  term_cond :: int
  blending :: int
  blend_vel :: real
  tolerance :: real
  synchronized :: int
  vel_at_blend_start :: real
  sync_accel :: int
  uu_per_rev :: real
  enables :: int
  atspeed :: int
  tc_syncdio :: syncdio_t
  indexrotary :: int
  atpeak :: int

subsection \<open>The segment queue\<close>

text \<open>
  The queue of tc.c: a bounded buffer whose capacity is fixed at creation. The
  list holds the queued segments, head first; \<open>q_size\<close> is the capacity.
\<close>

record TC_QUEUE_STRUCT =
  q_items :: "TC_STRUCT list"
  q_size :: nat

subsection \<open>The planner and the process-wide objects\<close>

record tp_spindle_t =
  sp_offset :: real
  sp_revs :: real
  waiting_for_index :: int
  waiting_for_atspeed :: int

record TP_STRUCT =
  queue :: TC_QUEUE_STRUCT
  spindle :: tp_spindle_t
  queueSize :: int
  cycleTime :: real
  vMax :: real
  ini_maxvel :: real
  vScale :: real
  aMax :: real
  vLimit :: real
  wMax :: real
  wDotMax :: real
  nextId :: int
  execId :: int
  termCond :: int
  currentPos :: EmcPose
  goalPos :: EmcPose
  tp_tolerance :: real
  tp_done :: int
  depth :: int
  activeDepth :: int
  aborting :: int
  pausing :: int
  motionType :: int
  velocity_mode :: int
  tp_synchronized :: int
  tp_uu_per_rev :: real

record emcmot_status_t =
  net_feed_scale :: real
  spindleSync :: int
  current_vel :: real
  requested_vel :: real
  distance_to_go :: real
  dtg :: EmcPose

record globals =
  emcmotStatus :: emcmot_status_t
  syncdio :: syncdio_t

subsection \<open>What the absent headers and files provide\<close>

text \<open>
  The macro constants of tc.h, tp.h and motion.h, the counts \<^verbatim>\<open>num_dio\<close> and
  \<^verbatim>\<open>num_aio\<close>, and the functions of posemath.c and tc.c that the specification
  does not give in closed form. \<open>stack_tc\<close> is the content of a
  \<^verbatim>\<open>TC_STRUCT\<close> local variable before its first assignment.
\<close>

record ext =
  TP_ANGLE_EPSILON :: real
  TP_MAG_EPSILON :: real
  TP_ACCEL_EPSILON :: real
  TP_LOOKAHEAD_DEPTH :: int
  TC_TERM_COND_STOP :: int
  TC_TERM_COND_PARABOLIC :: int
  TC_TERM_COND_TANGENT :: int
  TC_SYNC_POSITION :: int
  TC_LINEAR :: int
  TC_CIRCULAR :: int
  TC_RIGIDTAP :: int
  EMC_MOTION_TYPE_TRAVERSE :: int
  TAPPING :: int
  num_dio :: nat
  num_aio :: nat
  pmCartLineInit :: "PmCartesian \<Rightarrow> PmCartesian \<Rightarrow> PmCartLine"
  pmCircleInit :: "PmCartesian \<Rightarrow> PmCartesian \<Rightarrow> PmCartesian \<Rightarrow> PmCartesian \<Rightarrow> int \<Rightarrow> PmCircle"
  pmCirclePoint :: "PmCircle \<Rightarrow> real \<Rightarrow> PmCartesian"
  tcGetEndingUnitVector :: "TC_STRUCT \<Rightarrow> PmCartesian"
  tcGetStartingUnitVector :: "TC_STRUCT \<Rightarrow> PmCartesian"
  stack_tc :: TC_STRUCT

text \<open>
  Modelled from the spec: \<^verbatim>\<open>pmSq\<close>, \<^verbatim>\<open>pmSqrt\<close>, \<^verbatim>\<open>pmCartCartDot\<close> and
  \<^verbatim>\<open>pmCartMag\<close> of posemath.c are absent; the specification writes them as the
  square, the square root, the dot product and the norm.
\<close>

definition pmSq :: "real \<Rightarrow> real" where
  "pmSq x = x * x"

definition pmSqrt :: "real \<Rightarrow> real" where
  "pmSqrt x = sqrt x"

definition pmCartCartDot :: "PmCartesian \<Rightarrow> PmCartesian \<Rightarrow> real" where
  "pmCartCartDot v1 v2 = cart_x v1 * cart_x v2 + cart_y v1 * cart_y v2 + cart_z v1 * cart_z v2"

definition pmCartMag :: "PmCartesian \<Rightarrow> real" where
  "pmCartMag v = pmSqrt (pmSq (cart_x v) + pmSq (cart_y v) + pmSq (cart_z v))"

text \<open>
  Modelled from the spec: the macro \<^verbatim>\<open>ZERO_EMC_POSE\<close> of the absent headers sets
  the nine axes of a pose to zero.
\<close>

definition ZERO_EMC_POSE :: EmcPose where
  "ZERO_EMC_POSE =
     \<lparr>tran = \<lparr>cart_x = 0, cart_y = 0, cart_z = 0\<rparr>,
      pose_a = 0, pose_b = 0, pose_c = 0, pose_u = 0, pose_v = 0, pose_w = 0\<rparr>"

text \<open>
  Modelled from the spec: the queue operations of tc.c are absent. Section 4.1 of
  the specification: \<open>put\<close> appends and fails when the queue is full,
  \<open>pop_back\<close> drops the most recently appended segment, \<open>item i\<close> is the
  segment at index \<open>i\<close> from the head, \<open>last\<close> the most recently appended
  one, \<open>len\<close> the number of queued segments, \<open>init\<close> clears the queue. The
  C functions return a pointer into the queue, NULL when there is no such
  segment; here they return the segment, and a caller that writes through the
  pointer stores the segment back at its index.
\<close>

definition tcqInit :: "TC_QUEUE_STRUCT \<Rightarrow> TC_QUEUE_STRUCT" where
  "tcqInit q = q\<lparr>q_items := []\<rparr>"

definition tcqLen :: "TC_QUEUE_STRUCT \<Rightarrow> int" where
  "tcqLen q = int (length (q_items q))"

definition tcqPut :: "TC_QUEUE_STRUCT \<Rightarrow> TC_STRUCT \<Rightarrow> int \<times> TC_QUEUE_STRUCT" where
  "tcqPut q tc =
     (if q_size q \<le> length (q_items q) then (-1, q)
      else (0, q\<lparr>q_items := q_items q @ [tc]\<rparr>))"

definition tcqPopBack :: "TC_QUEUE_STRUCT \<Rightarrow> int \<times> TC_QUEUE_STRUCT" where
  "tcqPopBack q =
     (if q_items q = [] then (-1, q)
      else (0, q\<lparr>q_items := butlast (q_items q)\<rparr>))"

definition tcqItem :: "TC_QUEUE_STRUCT \<Rightarrow> int \<Rightarrow> TC_STRUCT option" where
  "tcqItem q n =
     (if 0 \<le> n \<and> n < tcqLen q then Some (q_items q ! nat n) else None)"

definition tcqLast :: "TC_QUEUE_STRUCT \<Rightarrow> TC_STRUCT option" where
  "tcqLast q = (if q_items q = [] then None else Some (last (q_items q)))"

text \<open>Storing back through the pointer that \<open>tcqItem\<close> or \<open>tcqLast\<close> returned.\<close>

definition tcqStore :: "TC_QUEUE_STRUCT \<Rightarrow> int \<Rightarrow> TC_STRUCT \<Rightarrow> TC_QUEUE_STRUCT" where
  "tcqStore q n tc = q\<lparr>q_items := (q_items q)[nat n := tc]\<rparr>"

definition tcqStoreLast :: "TC_QUEUE_STRUCT \<Rightarrow> TC_STRUCT \<Rightarrow> TC_QUEUE_STRUCT" where
  "tcqStoreLast q tc = tcqStore q (tcqLen q - 1) tc"

subsection \<open>Feed override, scaled acceleration, velocity clipping\<close>

definition fmax :: "real \<Rightarrow> real \<Rightarrow> real" where
  "fmax a b = (if a > b then a else b)"

definition fmin :: "real \<Rightarrow> real \<Rightarrow> real" where
  "fmin a b = (if a < b then a else b)"

definition tpGetFeedOverride :: "ext \<Rightarrow> globals \<Rightarrow> TP_STRUCT \<Rightarrow> TC_STRUCT \<Rightarrow> real" where
  "tpGetFeedOverride E g tp tc =
     (if canon_motion_type tc = EMC_MOTION_TYPE_TRAVERSE E
         \<or> synchronized tc = TC_SYNC_POSITION E then 1
      else if pausing tp \<noteq> 0 \<or> aborting tp \<noteq> 0 then 0
      else net_feed_scale (emcmotStatus g))"

definition tpGetReqVel :: "ext \<Rightarrow> globals \<Rightarrow> TP_STRUCT \<Rightarrow> TC_STRUCT \<Rightarrow> real" where
  "tpGetReqVel E g tp tc = reqvel tc * tpGetFeedOverride E g tp tc"

definition tpGetFinalVel :: "ext \<Rightarrow> globals \<Rightarrow> TP_STRUCT \<Rightarrow> TC_STRUCT \<Rightarrow> real" where
  "tpGetFinalVel E g tp tc = finalvel tc * tpGetFeedOverride E g tp tc"

definition tpGetScaledAccel :: "TP_STRUCT \<Rightarrow> TC_STRUCT \<Rightarrow> real" where
  "tpGetScaledAccel tp tc =
     (if accel_scale tc < 0 then 0 else maxaccel tc * accel_scale tc)"

text \<open>\<^verbatim>\<open>tpClipVelocityLimit\<close> always returns 0; the model returns the segment.\<close>

definition tpClipVelocityLimit :: "TP_STRUCT \<Rightarrow> TC_STRUCT \<Rightarrow> TC_STRUCT" where
  "tpClipVelocityLimit tp tc =
     (let sample_maxvel = 0.5 * target tc / cycleTime tp
      in if maxvel tc > sample_maxvel then tc\<lparr>maxvel := sample_maxvel\<rparr> else tc)"

subsection \<open>Initialisation and the setters\<close>

text \<open>The two loops of \<^verbatim>\<open>tpClearDIOs\<close>: \<open>xs[i] = 0\<close> for every \<open>i < n\<close>.\<close>

primrec clear_upto :: "nat \<Rightarrow> 'a::zero list \<Rightarrow> 'a list" where
  "clear_upto 0 xs = xs"
| "clear_upto (Suc n) xs = (clear_upto n xs)[n := 0]"

definition tpClearDIOs :: "ext \<Rightarrow> syncdio_t \<Rightarrow> int \<times> syncdio_t" where
  "tpClearDIOs E sd =
     (0, sd\<lparr>anychanged := 0, dio_mask := 0, aio_mask := 0,
             dios := clear_upto (num_dio E) (dios sd),
             aios := clear_upto (num_aio E) (aios sd)\<rparr>)"

definition tpClear :: "ext \<Rightarrow> TP_STRUCT \<Rightarrow> globals \<Rightarrow> int \<times> TP_STRUCT \<times> globals" where
  "tpClear E tp g =
     (let tp = tp\<lparr>queue := tcqInit (queue tp)\<rparr>;
          tp = tp\<lparr>queueSize := 0\<rparr>;
          tp = tp\<lparr>goalPos := currentPos tp\<rparr>;
          tp = tp\<lparr>nextId := 0, execId := 0, motionType := 0,
                    termCond := TC_TERM_COND_PARABOLIC E, tp_tolerance := 0,
                    tp_done := 1, depth := 0, activeDepth := 0,
                    aborting := 0, pausing := 0,
                    vScale := net_feed_scale (emcmotStatus g),
                    tp_synchronized := 0, tp_uu_per_rev := 0\<rparr>;
          st = (emcmotStatus g)\<lparr>spindleSync := 0, current_vel := 0,
                    requested_vel := 0, distance_to_go := 0, dtg := ZERO_EMC_POSE\<rparr>;
          (r, sd) = tpClearDIOs E (syncdio g)
      in (r, tp, g\<lparr>emcmotStatus := st, syncdio := sd\<rparr>))"

definition tpSetCycleTime :: "TP_STRUCT option \<Rightarrow> real \<Rightarrow> int \<times> TP_STRUCT option" where
  "tpSetCycleTime tpo secs =
     (case tpo of
        None \<Rightarrow> (-1, tpo)
      | Some tp \<Rightarrow>
          if secs \<le> 0 then (-1, tpo) else (0, Some (tp\<lparr>cycleTime := secs\<rparr>)))"

definition tpSetVmax :: "TP_STRUCT option \<Rightarrow> real \<Rightarrow> real \<Rightarrow> int \<times> TP_STRUCT option" where
  "tpSetVmax tpo vMax' ini_maxvel' =
     (case tpo of
        None \<Rightarrow> (-1, tpo)
      | Some tp \<Rightarrow>
          if vMax' \<le> 0 \<or> ini_maxvel' \<le> 0 then (-1, tpo)
          else (0, Some (tp\<lparr>vMax := vMax', ini_maxvel := ini_maxvel'\<rparr>)))"

definition tpSetVlimit :: "TP_STRUCT option \<Rightarrow> real \<Rightarrow> int \<times> TP_STRUCT option" where
  "tpSetVlimit tpo vLimit' =
     (case tpo of
        None \<Rightarrow> (-1, tpo)
      | Some tp \<Rightarrow>
          if vLimit' < 0 then (0, Some (tp\<lparr>vLimit := 0\<rparr>))
          else (0, Some (tp\<lparr>vLimit := vLimit'\<rparr>)))"

definition tpSetAmax :: "TP_STRUCT option \<Rightarrow> real \<Rightarrow> int \<times> TP_STRUCT option" where
  "tpSetAmax tpo aMax' =
     (case tpo of
        None \<Rightarrow> (-1, tpo)
      | Some tp \<Rightarrow>
          if aMax' \<le> 0 then (-1, tpo) else (0, Some (tp\<lparr>aMax := aMax'\<rparr>)))"

definition tpSetPos :: "TP_STRUCT option \<Rightarrow> EmcPose \<Rightarrow> int \<times> TP_STRUCT option" where
  "tpSetPos tpo pos =
     (case tpo of
        None \<Rightarrow> (-1, tpo)
      | Some tp \<Rightarrow> (0, Some (tp\<lparr>currentPos := pos, goalPos := pos\<rparr>)))"

text \<open>\<^verbatim>\<open>tpGetPos\<close> writes the pose through \<open>pos\<close>; the model returns it.\<close>

definition tpGetPos :: "TP_STRUCT option \<Rightarrow> int \<times> EmcPose" where
  "tpGetPos tpo =
     (case tpo of
        None \<Rightarrow> (-1, ZERO_EMC_POSE)
      | Some tp \<Rightarrow> (0, currentPos tp))"

definition tpIsDone :: "TP_STRUCT option \<Rightarrow> int" where
  "tpIsDone tpo = (case tpo of None \<Rightarrow> 0 | Some tp \<Rightarrow> tp_done tp)"

definition tpErrorCheck :: "TP_STRUCT option \<Rightarrow> int" where
  "tpErrorCheck tpo =
     (case tpo of
        None \<Rightarrow> -1
      | Some tp \<Rightarrow> if aborting tp \<noteq> 0 then -1 else 0)"

definition tpSetSpindleSync :: "TP_STRUCT \<Rightarrow> real \<Rightarrow> int \<Rightarrow> int \<times> TP_STRUCT" where
  "tpSetSpindleSync tp sync mode =
     (if sync \<noteq> 0
      then (0, tp\<lparr>tp_synchronized := 1, tp_uu_per_rev := sync, velocity_mode := mode\<rparr>)
      else (0, tp\<lparr>tp_synchronized := 0\<rparr>))"

subsection \<open>Segment construction\<close>

text \<open>
  \<^verbatim>\<open>tpConvertEmcPosetoPmCartesian\<close> fills the three output vectors whose pointer
  is not NULL; the model returns all three and the caller keeps those it asked for.
\<close>

definition tpConvertEmcPosetoPmCartesian :: "EmcPose \<Rightarrow> PmCartesian \<times> PmCartesian \<times> PmCartesian" where
  "tpConvertEmcPosetoPmCartesian pose =
     (tran pose,
      \<lparr>cart_x = pose_a pose, cart_y = pose_b pose, cart_z = pose_c pose\<rparr>,
      \<lparr>cart_x = pose_u pose, cart_y = pose_v pose, cart_z = pose_w pose\<rparr>)"

definition tpInitializeNewSegment ::
  "TP_STRUCT \<Rightarrow> TC_STRUCT \<Rightarrow> real \<Rightarrow> real \<Rightarrow> real \<Rightarrow> int \<Rightarrow> TC_STRUCT" where
  "tpInitializeNewSegment tp tc vel ini_maxvel' acc enables' =
     tc\<lparr>sync_accel := 0, cycle_time := cycleTime tp, tc_id := -1,
        progress := 0, maxaccel := acc, maxvel := ini_maxvel',
        reqvel := fmin vel ini_maxvel',
        active := 0, currentvel := 0, blending := 0, blend_vel := 0,
        vel_at_blend_start := 0, finalvel := 0,
        enables := enables', atpeak := 0, accel_scale := 1\<rparr>"

text \<open>
  \<^verbatim>\<open>tpAddSegmentToQueue\<close>. The segment is a local variable of the caller, who
  drops it after the call, so the write to \<^verbatim>\<open>tc->id\<close> is visible in the queued
  copy only. The increment of \<^verbatim>\<open>nextId\<close> is the one of an unbounded integer.
\<close>

definition tpAddSegmentToQueue :: "TP_STRUCT \<Rightarrow> TC_STRUCT \<Rightarrow> EmcPose \<Rightarrow> int \<times> TP_STRUCT" where
  "tpAddSegmentToQueue tp tc end' =
     (let tc = tc\<lparr>tc_id := nextId tp\<rparr>;
          (r, q) = tcqPut (queue tp) tc
      in if r = -1 then (-1, tp)
         else
           (let tp = tp\<lparr>queue := q\<rparr>;
                tp = tp\<lparr>goalPos := end'\<rparr>;
                tp = tp\<lparr>tp_done := 0\<rparr>;
                tp = tp\<lparr>depth := tcqLen (queue tp)\<rparr>;
                tp = tp\<lparr>nextId := nextId tp + 1\<rparr>
            in (0, tp)))"

definition tpAddRigidTap ::
  "ext \<Rightarrow> TP_STRUCT option \<Rightarrow> globals \<Rightarrow> EmcPose \<Rightarrow> real \<Rightarrow> real \<Rightarrow> real \<Rightarrow> int
     \<Rightarrow> int \<times> TP_STRUCT option \<times> globals" where
  "tpAddRigidTap E tpo g end' vel ini_maxvel' acc enables' =
     (if tpErrorCheck tpo \<noteq> 0 then (-1, tpo, g)
      else case tpo of
        None \<Rightarrow> (-1, tpo, g)
      | Some tp \<Rightarrow>
         (let (start_xyz, abc, uvw) = tpConvertEmcPosetoPmCartesian (goalPos tp);
              (end_xyz, end_abc, end_uvw) = tpConvertEmcPosetoPmCartesian end';
              line_xyz = pmCartLineInit E start_xyz end_xyz;
              tc = tpInitializeNewSegment tp (stack_tc E) vel ini_maxvel' acc enables';
              tc = tc\<lparr>target := tmag line_xyz + 10 * tp_uu_per_rev tp\<rparr>;
              tc = tc\<lparr>atspeed := 1\<rparr>;
              tc = tc\<lparr>coords := RigidTap
                       \<lparr>r_xyz = line_xyz, r_abc = abc, r_uvw = uvw,
                        reversal_target = tmag line_xyz, tap_state = TAPPING E\<rparr>\<rparr>;
              tc = tc\<lparr>motion_type := TC_RIGIDTAP E, canon_motion_type := 0,
                      term_cond := 0, tolerance := tp_tolerance tp\<rparr>
          in if tp_synchronized tp = 0 then (-1, tpo, g)
             else
               (let tc = tc\<lparr>synchronized := tp_synchronized tp\<rparr>;
                    tc = tc\<lparr>uu_per_rev := tp_uu_per_rev tp, indexrotary := -1\<rparr>;
                    (tc, g) =
                      (if anychanged (syncdio g) \<noteq> 0
                       then (tc\<lparr>tc_syncdio := syncdio g\<rparr>,
                             g\<lparr>syncdio := snd (tpClearDIOs E (syncdio g))\<rparr>)
                       else (tc\<lparr>tc_syncdio := (tc_syncdio tc)\<lparr>anychanged := 0\<rparr>\<rparr>, g));
                    (retval, tp) = tpAddSegmentToQueue tp tc end'
                in (retval, Some tp, g))))"

subsection \<open>The blend-arc builder\<close>

text \<open>
  Modelled from the spec: the constant \<^verbatim>\<open>PM_PI\<close> of posemath.h is absent; the
  specification writes it as the number pi.
\<close>

definition PM_PI :: real where
  "PM_PI = pi"

text \<open>
  \<^verbatim>\<open>tpFindIntersectionAngle\<close> and \<^verbatim>\<open>tpCalculateUnitCartAngle\<close> return a status
  and write the angle through \<open>theta\<close> on success; the model returns the status and
  the content of \<open>theta\<close> after the call.
\<close>

definition tpFindIntersectionAngle :: "PmCartesian \<Rightarrow> PmCartesian \<Rightarrow> real \<Rightarrow> int \<times> real" where
  "tpFindIntersectionAngle u1 u2 theta =
     (let dot = pmCartCartDot u1 u2
      in if dot > 1 \<or> dot < -1 then (-1, theta) else (0, arccos (- dot) / 2))"

definition tpCalculateUnitCartAngle :: "PmCartesian \<Rightarrow> PmCartesian \<Rightarrow> real \<Rightarrow> int \<times> real" where
  "tpCalculateUnitCartAngle u1 u2 theta =
     (let dot = pmCartCartDot u1 u2
      in if dot > 1 \<or> dot < -1 then (-1, theta) else (0, arccos dot))"

text \<open>
  \<^verbatim>\<open>tpComputeBlendVelocity\<close>. Its callers pass a segment for \<open>nexttc\<close> that is
  not NULL (the C function reads it before it tests the pointer).
\<close>

definition tpComputeBlendVelocity ::
  "ext \<Rightarrow> globals \<Rightarrow> TP_STRUCT \<Rightarrow> TC_STRUCT \<Rightarrow> TC_STRUCT \<Rightarrow> real" where
  "tpComputeBlendVelocity E g tp tc nexttc =
     (let blend_vel = 0;
          acc_this = tpGetScaledAccel tp tc;
          acc_next = tpGetScaledAccel tp nexttc
      in if acc_next \<noteq> 0 then
           (let v_peak_this = pmSqrt (target tc * acc_this);
                v_peak_next = pmSqrt (target nexttc * acc_next);
                blend_vel = fmin v_peak_this v_peak_next;
                blend_vel = (if blend_vel > tpGetReqVel E g tp nexttc
                             then tpGetReqVel E g tp nexttc else blend_vel);
                blend_vel = (if acc_this < acc_next
                             then blend_vel * (acc_this / acc_next) else blend_vel)
            in if tolerance tc \<noteq> 0 then
                 (let v1 = tcGetEndingUnitVector E tc;
                      v2 = tcGetStartingUnitVector E nexttc;
                      dot = pmCartCartDot v1 v2;
                      theta = arccos (- dot) / 2
                  in if cos theta > 0.001 then
                       (let tblend_vel = 2 * pmSqrt (acc_this * tolerance tc / cos theta)
                        in if tblend_vel < blend_vel then tblend_vel else blend_vel)
                     else blend_vel)
               else blend_vel)
         else blend_vel)"

text \<open>
  \<^verbatim>\<open>tpCreateBlendArc\<close>, with the segment \<open>blend_tc\<close> as the call leaves it. The
  C function ends in the statement \<^verbatim>\<open>return -1;\<close> (under the comment
  "TEMPORARY - always fail here to check degradation"); the calls of
  \<^verbatim>\<open>tpInitBlendArc\<close>, \<^verbatim>\<open>pmCircleFromPoints\<close> and \<^verbatim>\<open>tpApplyBlendArcParameters\<close>
  that follow it in the text never run, and neither do the local variables that only
  they read (\<open>start\<close>, \<open>middle\<close>, \<open>end\<close>, \<open>s_arc\<close>, \<open>L_next\<close>) appear here.
\<close>

definition tpCreateBlendArc ::
  "ext \<Rightarrow> globals \<Rightarrow> TP_STRUCT \<Rightarrow> TC_STRUCT \<Rightarrow> TC_STRUCT \<Rightarrow> TC_STRUCT \<Rightarrow> int \<times> TC_STRUCT" where
  "tpCreateBlendArc E g tp prev_tc tc blend_tc =
     (let theta = 0;
          (res, theta) = tpFindIntersectionAngle
                           (uVec (l_xyz (line_of (coords prev_tc))))
                           (uVec (l_xyz (line_of (coords tc)))) theta
      in if res \<noteq> 0 then (-1, blend_tc)
         else
     (let acc_ratio = 1;
          v_req = fmax (reqvel prev_tc) (reqvel tc);
          a_max = fmin (maxaccel prev_tc) (maxaccel tc);
          acc_safety_factor = 0.98;
          a_n_max = a_max / pmSqrt (1 + 1 / pmSq acc_ratio) * acc_safety_factor;
          blend_tc = blend_tc\<lparr>accel_scale := 1 / pmSqrt (1 + pmSq acc_ratio)\<rparr>;
          blend_tc = blend_tc\<lparr>maxaccel := a_max\<rparr>;
          T1 = tolerance prev_tc;
          T2 = tolerance tc;
          T1 = (if 0 = T1 then 10000000 else T1);
          T2 = (if 0 = T2 then 10000000 else T2);
          tolerance' = fmin T1 T2;
          Ctheta = cos theta;
          Stheta = sin theta;
          Ttheta = tan theta;
          tmp = 1 - Stheta
      in if \<not> tmp > TP_ANGLE_EPSILON E then (-1, blend_tc)
         else
     (let h_tol = tolerance' / tmp;
          d_tol = Ctheta * h_tol;
          blend_ratio = 0.5;
          L1 = target prev_tc;
          L2 = target tc;
          d_prev = L1 * 1;
          d_next = L2 * blend_ratio;
          d_geom = fmin (fmin d_prev d_next) d_tol;
          R_geom = Ttheta * d_geom;
          v_normal = pmSqrt (a_n_max * R_geom);
          v_upper = fmin v_req v_normal
      in if \<not> a_n_max > TP_ACCEL_EPSILON E then (-1, blend_tc)
         else
     (let R_normal = pmSq v_upper / a_n_max;
          R_upper = fmin R_normal R_geom;
          d_upper = R_upper / Ttheta;
          phi = PM_PI - theta * 2;
          L_prev = L1 - d_upper
      in if L_prev < - TP_MAG_EPSILON E then (-1, blend_tc)
         else
     (let (v_upper, d_upper) =
            (if L_prev < TP_MAG_EPSILON E then (v_upper, d_upper + L_prev)
             else
               (let v_sample = phi * d_upper * Ttheta / cycleTime tp;
                    v_upper = fmin v_upper v_sample;
                    d_sample = v_upper * cycleTime tp / (phi * Ttheta);
                    v1_sample = (L1 - d_sample) / cycleTime tp
                in if v1_sample < v_upper
                   then (v1_sample, L1 / (1 + phi * Ttheta))
                   else (v_upper, d_upper)));
          R_upper = d_upper * Ttheta;
          v_parabolic = tpComputeBlendVelocity E g tp prev_tc tc
      in if v_upper < v_parabolic then (-1, blend_tc)
         else if R_upper < TP_MAG_EPSILON E then (-1, blend_tc)
         else (-1, blend_tc))))))"

definition tpCheckNeedBlendArc ::
  "ext \<Rightarrow> TP_STRUCT \<Rightarrow> TC_STRUCT option \<Rightarrow> TC_STRUCT option \<Rightarrow> real \<Rightarrow> int" where
  "tpCheckNeedBlendArc E tp prev_o tc_o period =
     (case prev_o of
        None \<Rightarrow> -1
      | Some prev_tc \<Rightarrow>
     (case tc_o of
        None \<Rightarrow> -1
      | Some tc \<Rightarrow>
     (let omega = 0;
          (r, omega) = tpCalculateUnitCartAngle
                         (uVec (l_xyz (line_of (coords prev_tc))))
                         (uVec (l_xyz (line_of (coords tc)))) omega
      in if r \<noteq> 0 then -1
         else
     (let v_req = fmax (reqvel prev_tc) (reqvel tc);
          a_max = fmin (tpGetScaledAccel tp prev_tc) (tpGetScaledAccel tp tc);
          crit_angle = TP_ANGLE_EPSILON E
      in if omega < crit_angle then 1
         else if PM_PI - omega < crit_angle then -1
         else if \<not> (motion_type prev_tc = TC_LINEAR E) \<or> \<not> (motion_type tc = TC_LINEAR E)
           then -1
         else if term_cond prev_tc \<noteq> TC_TERM_COND_PARABOLIC E then -1
         else if tmag (l_abc (line_of (coords prev_tc))) > TP_MAG_EPSILON E
                 \<or> tmag (l_abc (line_of (coords tc))) > TP_MAG_EPSILON E then -1
         else if tmag (l_uvw (line_of (coords prev_tc))) > TP_MAG_EPSILON E
                 \<or> tmag (l_uvw (line_of (coords tc))) > TP_MAG_EPSILON E then -1
         else 0))))"

text \<open>
  \<^verbatim>\<open>tcConnectBlendArc\<close> writes both line segments; the model returns them after the
  status.
\<close>

definition tcConnectBlendArc ::
  "ext \<Rightarrow> TC_STRUCT \<Rightarrow> TC_STRUCT \<Rightarrow> TC_STRUCT \<Rightarrow> int \<times> TC_STRUCT \<times> TC_STRUCT" where
  "tcConnectBlendArc E prev_tc tc blend_tc =
     (let start_xyz = pmCirclePoint E (c_xyz (circle_of (coords blend_tc))) 0;
          end_xyz = pmCirclePoint E (c_xyz (circle_of (coords blend_tc)))
                      (angle (c_xyz (circle_of (coords blend_tc))));
          pl = line_of (coords prev_tc);
          prev_tc = prev_tc\<lparr>coords :=
                      Line (pl\<lparr>l_xyz := pmCartLineInit E (line_start (l_xyz pl)) start_xyz\<rparr>)\<rparr>;
          tl = line_of (coords tc);
          tc = tc\<lparr>coords :=
                      Line (tl\<lparr>l_xyz := pmCartLineInit E end_xyz (line_end (l_xyz tl))\<rparr>)\<rparr>;
          prev_tc = prev_tc\<lparr>target := tmag (l_xyz (line_of (coords prev_tc)))\<rparr>;
          tc = tc\<lparr>target := tmag (l_xyz (line_of (coords tc)))\<rparr>;
          prev_tc = prev_tc\<lparr>term_cond := TC_TERM_COND_TANGENT E\<rparr>
      in if target prev_tc < 0.000001 then (1, prev_tc, tc) else (0, prev_tc, tc))"

subsection \<open>The look-ahead optimiser\<close>

text \<open>
  The loop of \<^verbatim>\<open>tpRunOptimization\<close>: \<^verbatim>\<open>for (x = 1; x < walk; ++x)\<close>, with each
  \<^verbatim>\<open>break\<close> as the end of the recursion. The loop writes the previous segment
  in place, so the next round reads the new \<open>finalvel\<close> and \<open>atpeak\<close> of the
  segment it then calls \<open>tc\<close>.
\<close>

function tpRunOptimization_loop ::
  "ext \<Rightarrow> TP_STRUCT \<Rightarrow> int \<Rightarrow> int \<Rightarrow> int \<Rightarrow> TC_QUEUE_STRUCT \<Rightarrow> TC_QUEUE_STRUCT" where
  "tpRunOptimization_loop E tp len walk x q =
     (if x < walk then
        (let ind = len - x
         in case tcqItem q ind of
              None \<Rightarrow> q
            | Some tc \<Rightarrow>
           (case tcqItem q (ind - 1) of
              None \<Rightarrow> q
            | Some prev_tc \<Rightarrow>
                if term_cond prev_tc \<noteq> TC_TERM_COND_TANGENT E then q
                else if progress prev_tc > 0 then q
                else
                  (let acc = tpGetScaledAccel tp tc;
                       vs = pmSqrt (pmSq (finalvel tc) + 2 * acc * target tc);
                       prev_tc = (if vs > maxvel tc
                                  then prev_tc\<lparr>finalvel := maxvel tc, atpeak := 1\<rparr>
                                  else prev_tc\<lparr>finalvel := vs, atpeak := 0\<rparr>);
                       q = tcqStore q (ind - 1) prev_tc
                   in if atpeak tc \<noteq> 0 then q
                      else tpRunOptimization_loop E tp len walk (x + 1) q)))
      else q)"
  by pat_completeness auto
termination
  by (relation "measure (\<lambda>(E, tp, len, walk, x, q). nat (walk - x))") auto

declare tpRunOptimization_loop.simps [simp del]

definition tpRunOptimization :: "ext \<Rightarrow> TP_STRUCT \<Rightarrow> int \<times> TP_STRUCT" where
  "tpRunOptimization E tp =
     (let len = tcqLen (queue tp);
          walk = TP_LOOKAHEAD_DEPTH E
      in if len < 2 then (0, tp)
         else (0, tp\<lparr>queue := tpRunOptimization_loop E tp len walk 1 (queue tp)\<rparr>))"

subsection \<open>The blend handler and the line and circle constructors\<close>

text \<open>
  \<^verbatim>\<open>tpHandleBlendArc\<close>. \<open>prev_tc\<close> points at the last queued segment, so each
  write through it is stored back into the queue; after \<^verbatim>\<open>tcqPopBack\<close> the slot
  it points at is no longer part of the queue, and the clipped \<open>maxvel\<close> written to
  it is lost. The function also writes the caller's segment \<open>tc\<close> (in
  \<^verbatim>\<open>tcConnectBlendArc\<close>); the model returns it after the planner.
\<close>

definition tpHandleBlendArc ::
  "ext \<Rightarrow> globals \<Rightarrow> TP_STRUCT \<Rightarrow> TC_STRUCT \<Rightarrow> EmcPose \<Rightarrow> int \<times> TP_STRUCT \<times> TC_STRUCT" where
  "tpHandleBlendArc E g tp tc end' =
     (case tcqLast (queue tp) of
        None \<Rightarrow> (-1, tp, tc)
      | Some prev_tc \<Rightarrow>
          if progress prev_tc > 0 then (-1, tp, tc)
          else
     (let need_arc = tpCheckNeedBlendArc E tp (Some prev_tc) (Some tc) (cycleTime tp);
          blend_tc = stack_tc E
      in if need_arc = 0 then
           (let (arc_fail, blend_tc) = tpCreateBlendArc E g tp prev_tc tc blend_tc
            in if arc_fail \<noteq> 0 then (-1, tp, tc)
               else
           (let (arc_connect_stat, prev_tc, tc) = tcConnectBlendArc E prev_tc tc blend_tc;
                tp = tp\<lparr>queue := tcqStoreLast (queue tp) prev_tc\<rparr>;
                (trim_fail, q) = (if 1 = arc_connect_stat then tcqPopBack (queue tp)
                                  else (0, queue tp));
                tp = tp\<lparr>queue := q\<rparr>
            in if trim_fail \<noteq> 0 then (-1, tp, tc)
               else
           (let tp = (if 1 = arc_connect_stat then tp
                      else tp\<lparr>queue := tcqStoreLast (queue tp) (tpClipVelocityLimit tp prev_tc)\<rparr>);
                blend_tc = tpClipVelocityLimit tp blend_tc;
                (r, tp) = tpAddSegmentToQueue tp blend_tc end';
                (r, tp) = tpRunOptimization E tp
            in (0, tp, tc))))
         else if need_arc = 1 then
           (0, tp\<lparr>queue := tcqStoreLast (queue tp)
                               (prev_tc\<lparr>term_cond := TC_TERM_COND_TANGENT E\<rparr>)\<rparr>, tc)
         else (-1, tp, tc)))"

text \<open>
  The first part of \<^verbatim>\<open>tpAddLine\<close>, from the call of
  \<^verbatim>\<open>tpConvertEmcPosetoPmCartesian\<close> to the copy of the staged outputs: the new
  segment as it stands before the call of \<^verbatim>\<open>tpHandleBlendArc\<close>, and the
  process-wide objects after that copy.
\<close>

definition tpAddLine_tc ::
  "ext \<Rightarrow> TP_STRUCT \<Rightarrow> globals \<Rightarrow> EmcPose \<Rightarrow> int \<Rightarrow> real \<Rightarrow> real \<Rightarrow> real \<Rightarrow> int \<Rightarrow> int \<Rightarrow> int
     \<Rightarrow> TC_STRUCT \<times> globals" where
  "tpAddLine_tc E tp g end' type' vel ini_maxvel' acc enables' atspeed' indexrotary' =
     (let (start_xyz, start_abc, start_uvw) = tpConvertEmcPosetoPmCartesian (goalPos tp);
          (end_xyz, end_abc, end_uvw) = tpConvertEmcPosetoPmCartesian end';
          line_xyz = pmCartLineInit E start_xyz end_xyz;
          line_uvw = pmCartLineInit E start_uvw end_uvw;
          line_abc = pmCartLineInit E start_abc end_abc;
          tc = tpInitializeNewSegment tp (stack_tc E) vel ini_maxvel' acc enables';
          tc = (if tmag_zero line_xyz = 0 then tc\<lparr>target := tmag line_xyz\<rparr>
                else if tmag_zero line_uvw = 0 then tc\<lparr>target := tmag line_uvw\<rparr>
                else tc\<lparr>target := tmag line_abc\<rparr>);
          tc = tc\<lparr>atspeed := atspeed'\<rparr>;
          tc = tc\<lparr>coords := Line \<lparr>l_xyz = line_xyz, l_abc = line_abc, l_uvw = line_uvw\<rparr>\<rparr>;
          tc = tc\<lparr>motion_type := TC_LINEAR E, canon_motion_type := type'\<rparr>;
          tc = tc\<lparr>term_cond := termCond tp, tolerance := tp_tolerance tp\<rparr>;
          tc = tc\<lparr>synchronized := tp_synchronized tp, uu_per_rev := tp_uu_per_rev tp,
                  indexrotary := indexrotary'\<rparr>
      in if anychanged (syncdio g) \<noteq> 0
         then (tc\<lparr>tc_syncdio := syncdio g\<rparr>,
               g\<lparr>syncdio := snd (tpClearDIOs E (syncdio g))\<rparr>)
         else (tc\<lparr>tc_syncdio := (tc_syncdio tc)\<lparr>anychanged := 0\<rparr>\<rparr>, g))"

definition tpAddLine ::
  "ext \<Rightarrow> TP_STRUCT option \<Rightarrow> globals \<Rightarrow> EmcPose \<Rightarrow> int \<Rightarrow> real \<Rightarrow> real \<Rightarrow> real \<Rightarrow> int \<Rightarrow> int \<Rightarrow> int
     \<Rightarrow> int \<times> TP_STRUCT option \<times> globals" where
  "tpAddLine E tpo g end' type' vel ini_maxvel' acc enables' atspeed' indexrotary' =
     (if tpErrorCheck tpo < 0 then (-1, tpo, g)
      else case tpo of
        None \<Rightarrow> (-1, tpo, g)
      | Some tp \<Rightarrow>
         (let (tc, g) = tpAddLine_tc E tp g end' type' vel ini_maxvel' acc enables'
                          atspeed' indexrotary';
              (r, tp, tc) = tpHandleBlendArc E g tp tc end';
              tc = tpClipVelocityLimit tp tc;
              (retval, tp) = tpAddSegmentToQueue tp tc end'
          in (retval, Some tp, g)))"

definition tpAddCircle ::
  "ext \<Rightarrow> TP_STRUCT option \<Rightarrow> globals \<Rightarrow> EmcPose \<Rightarrow> PmCartesian \<Rightarrow> PmCartesian \<Rightarrow> int \<Rightarrow> int
     \<Rightarrow> real \<Rightarrow> real \<Rightarrow> real \<Rightarrow> int \<Rightarrow> int \<Rightarrow> int \<times> TP_STRUCT option \<times> globals" where
  "tpAddCircle E tpo g end' center' normal' turn type' vel ini_maxvel' acc enables' atspeed' =
     (if tpErrorCheck tpo < 0 then (-1, tpo, g)
      else case tpo of
        None \<Rightarrow> (-1, tpo, g)
      | Some tp \<Rightarrow>
         (let (start_xyz, start_abc, start_uvw) = tpConvertEmcPosetoPmCartesian (goalPos tp);
              (end_xyz, end_abc, end_uvw) = tpConvertEmcPosetoPmCartesian end';
              circle = pmCircleInit E start_xyz end_xyz center' normal' turn;
              line_uvw = pmCartLineInit E start_uvw end_uvw;
              line_abc = pmCartLineInit E start_abc end_abc;
              helix_z_component = pmCartMag (rHelix circle);
              helix_length = pmSqrt (pmSq (angle circle * radius circle)
                                       + pmSq helix_z_component);
              tc = tpInitializeNewSegment tp (stack_tc E) vel ini_maxvel' acc enables';
              tc = tc\<lparr>target := helix_length\<rparr>;
              tc = tc\<lparr>atspeed := atspeed'\<rparr>;
              tc = tc\<lparr>coords := Circle \<lparr>c_xyz = circle, c_abc = line_abc, c_uvw = line_uvw\<rparr>\<rparr>;
              tc = tc\<lparr>motion_type := TC_CIRCULAR E, canon_motion_type := type'\<rparr>;
              tc = tc\<lparr>term_cond := termCond tp, tolerance := tp_tolerance tp\<rparr>;
              tc = tc\<lparr>synchronized := tp_synchronized tp, uu_per_rev := tp_uu_per_rev tp,
                      indexrotary := -1\<rparr>;
              sample_maxvel = 0.5 * target tc / cycleTime tp;
              tc = tc\<lparr>maxvel := fmin sample_maxvel (maxvel tc)\<rparr>;
              (tc, g) =
                (if anychanged (syncdio g) \<noteq> 0
                 then (tc\<lparr>tc_syncdio := syncdio g\<rparr>,
                       g\<lparr>syncdio := snd (tpClearDIOs E (syncdio g))\<rparr>)
                 else (tc\<lparr>tc_syncdio := (tc_syncdio tc)\<lparr>anychanged := 0\<rparr>\<rparr>, g));
              tc = tpClipVelocityLimit tp tc;
              (retval, tp) = tpAddSegmentToQueue tp tc end'
          in (retval, Some tp, g)))"

subsection \<open>The per-tick profiler\<close>

definition saturate :: "real \<Rightarrow> real \<Rightarrow> real" where
  "saturate x max' = (if x > max' then max' else if x < - max' then - max' else x)"

text \<open>
  The first part of \<^verbatim>\<open>tcRunCycle\<close>, up to the clamp of \<open>newvel\<close> by \<open>req_vel\<close>:
  it reads the planner and the segment and computes \<open>maxnewvel\<close> and \<open>newvel\<close>.
\<close>

definition tcRunCycle_newvel ::
  "ext \<Rightarrow> globals \<Rightarrow> TP_STRUCT \<Rightarrow> TC_STRUCT \<Rightarrow> real \<times> real" where
  "tcRunCycle_newvel E g tp tc =
     (let req_vel = tpGetReqVel E g tp tc;
          final_vel = tpGetFinalVel E g tp tc;
          req_vel = (if req_vel > maxvel tc then maxvel tc else req_vel);
          final_vel = (if final_vel > req_vel then req_vel else final_vel);
          final_vel = (if pausing tp \<noteq> 0 then 0 else final_vel);
          delta_pos = target tc - progress tc;
          maxaccel' = tpGetScaledAccel tp tc;
          discr_term1 = pmSq final_vel;
          discr_term2 = maxaccel' * (2 * delta_pos - currentvel tc * cycle_time tc);
          discr_term3 = pmSq (maxaccel' * cycle_time tc / 2);
          discr = discr_term1 + discr_term2 + discr_term3;
          maxnewvel = (if discr < 0 then 0
                       else - 0.5 * maxaccel' * cycle_time tc + pmSqrt discr);
          newvel = maxnewvel;
          newvel = (if newvel > req_vel then req_vel else newvel)
      in (maxnewvel, newvel))"

text \<open>
  \<^verbatim>\<open>tcRunCycle\<close>: the segment after the tick, the velocity written through \<open>v\<close>
  and the flag written through \<open>on_final_decel\<close>.
\<close>

definition tcRunCycle ::
  "ext \<Rightarrow> globals \<Rightarrow> TP_STRUCT \<Rightarrow> TC_STRUCT \<Rightarrow> TC_STRUCT \<times> real \<times> int" where
  "tcRunCycle E g tp tc =
     (let (maxnewvel, newvel) = tcRunCycle_newvel E g tp tc;
          maxaccel' = tpGetScaledAccel tp tc;
          tc = (if blending tc = 0 then tc\<lparr>vel_at_blend_start := currentvel tc\<rparr> else tc)
      in if newvel < 0 then
           (let newvel = 0;
                tc = (if \<not> (term_cond tc = TC_TERM_COND_TANGENT E) \<or> progress tc < target tc
                      then tc\<lparr>progress := target tc\<rparr> else tc)
            in (tc, newvel, if \<bar>maxnewvel - newvel\<bar> < 0.001 then 1 else 0))
         else
           (let is_pure_rotary =
                  (motion_type tc = TC_LINEAR E
                   \<and> tmag_zero (l_xyz (line_of (coords tc))) \<noteq> 0
                   \<and> tmag_zero (l_uvw (line_of (coords tc))) \<noteq> 0);
                newvel = (if \<not> is_pure_rotary \<and> synchronized tc \<noteq> TC_SYNC_POSITION E
                             \<and> newvel > vLimit tp
                          then vLimit tp else newvel);
                newaccel = (newvel - currentvel tc) / cycle_time tc;
                newaccel = saturate newaccel maxaccel';
                newvel = currentvel tc + newaccel * cycle_time tc;
                tc = tc\<lparr>progress := progress tc + (newvel + currentvel tc) * 0.5 * cycle_time tc\<rparr>;
                tc = tc\<lparr>currentvel := newvel\<rparr>
            in (tc, newvel, if \<bar>maxnewvel - newvel\<bar> < 0.001 then 1 else 0)))"

subsection \<open>Notions used in the statements\<close>

text \<open>
  The dot product that \<^verbatim>\<open>tpCheckNeedBlendArc\<close> takes of the two unit vectors it
  reads through \<^verbatim>\<open>coords.line.xyz.uVec\<close>, and its test that the two segments are
  nearly tangent: the dot product is a cosine and the angle \<open>omega\<close> is below
  \<open>crit_angle\<close>, which the function sets to \<^verbatim>\<open>TP_ANGLE_EPSILON\<close>.
\<close>

definition xyz_dot :: "TC_STRUCT \<Rightarrow> TC_STRUCT \<Rightarrow> real" where
  "xyz_dot prev_tc tc =
     pmCartCartDot (uVec (l_xyz (line_of (coords prev_tc)))) (uVec (l_xyz (line_of (coords tc))))"

definition nearly_tangent :: "ext \<Rightarrow> TC_STRUCT \<Rightarrow> TC_STRUCT \<Rightarrow> bool" where
  "nearly_tangent E prev_tc tc \<longleftrightarrow>
     - 1 \<le> xyz_dot prev_tc tc \<and> xyz_dot prev_tc tc \<le> 1
     \<and> arccos (xyz_dot prev_tc tc) < TP_ANGLE_EPSILON E"

text \<open>
  A rejected append, as the caller sees it: the status is negative, the planner is
  still there, and its goal pose, its \<open>done\<close> flag, its depth, its next id and the
  length of its queue are the ones before the call.
\<close>

definition append_rejected :: "TP_STRUCT \<Rightarrow> int \<times> TP_STRUCT option \<times> globals \<Rightarrow> bool" where
  "append_rejected tp res =
     (case res of (rc, tpo', g') \<Rightarrow>
        rc < 0 \<and>
        (case tpo' of
           None \<Rightarrow> False
         | Some tp' \<Rightarrow>
             goalPos tp' = goalPos tp \<and> tp_done tp' = tp_done tp \<and> depth tp' = depth tp
             \<and> nextId tp' = nextId tp
             \<and> length (q_items (queue tp')) = length (q_items (queue tp))))"

text \<open>
  What a call that comes as far as the append has by then written, whether or not
  the append succeeds. The three adding functions copy the staged outputs into the
  new segment and clear the stage when something is staged. \<^verbatim>\<open>tpAddLine\<close> also
  runs the blend handler, which sets the termination condition of the last queued
  segment to Tangent when that segment has not started and is nearly tangent to
  the new line; every other queued segment and every other field of the planner
  stay as they are.
\<close>

definition staged_taken :: "ext \<Rightarrow> globals \<Rightarrow> globals" where
  "staged_taken E g =
     (if anychanged (syncdio g) \<noteq> 0 then g\<lparr>syncdio := snd (tpClearDIOs E (syncdio g))\<rparr>
      else g)"

definition last_promoted :: "ext \<Rightarrow> TP_STRUCT \<Rightarrow> TP_STRUCT" where
  "last_promoted E tp =
     tp\<lparr>queue := (queue tp)\<lparr>q_items :=
           (q_items (queue tp))[length (q_items (queue tp)) - 1 :=
              (last (q_items (queue tp)))\<lparr>term_cond := TC_TERM_COND_TANGENT E\<rparr>]\<rparr>\<rparr>"

definition line_promotes :: "ext \<Rightarrow> TP_STRUCT \<Rightarrow> TC_STRUCT \<Rightarrow> bool" where
  "line_promotes E tp tc \<longleftrightarrow>
     q_items (queue tp) \<noteq> []
     \<and> \<not> 0 < progress (last (q_items (queue tp)))
     \<and> nearly_tangent E (last (q_items (queue tp))) tc"

text \<open>
  The velocity \<open>vs\<close> of the look-ahead optimiser: the highest velocity at the
  start of the segment \<open>tc\<close> from which its final velocity can still be reached
  over its length. \<open>lookahead_result\<close> is the previous segment as the optimiser
  should leave it: its final velocity is the smaller of \<open>vs\<close> and the maximal
  velocity of \<open>tc\<close>, and it is marked as a peak exactly when \<open>vs\<close> is the larger.
\<close>

definition lookahead_vs :: "TP_STRUCT \<Rightarrow> TC_STRUCT \<Rightarrow> real" where
  "lookahead_vs tp tc = sqrt ((finalvel tc)\<^sup>2 + 2 * tpGetScaledAccel tp tc * target tc)"

definition lookahead_result :: "TP_STRUCT \<Rightarrow> TC_STRUCT \<Rightarrow> TC_STRUCT \<Rightarrow> TC_STRUCT" where
  "lookahead_result tp prev_tc tc =
     prev_tc\<lparr>finalvel := min (lookahead_vs tp tc) (maxvel tc),
             atpeak := (if maxvel tc < lookahead_vs tp tc then 1 else 0)\<rparr>"

text \<open>
  The rounds of the optimiser's walk. Round \<open>k\<close> (counted from 1) looks at the
  pair whose previous segment is \<open>k\<close> places before the last one of the queue.
  A walk that starts with round \<open>x\<close> on the queue \<open>its\<close> and leaves the queue
  \<open>its'\<close> reaches round \<open>r\<close> when every round from \<open>x\<close> to \<open>r\<close> is within
  the look-ahead depth \<open>walk\<close>, finds its pair in the queue and finds the
  previous segment Tangent with no progress, and when no round before \<open>r\<close> ended
  on a segment \<open>tc\<close> that is marked as a peak.
\<close>

definition walk_reached ::
  "ext \<Rightarrow> int \<Rightarrow> nat \<Rightarrow> TC_STRUCT list \<Rightarrow> TC_STRUCT list \<Rightarrow> nat \<Rightarrow> bool" where
  "walk_reached E walk x its its' r \<longleftrightarrow>
     (\<forall>k. x \<le> k \<and> k \<le> r \<longrightarrow>
        int k < walk \<and> k < length its
        \<and> term_cond (its ! (length its - 1 - k)) = TC_TERM_COND_TANGENT E
        \<and> \<not> 0 < progress (its ! (length its - 1 - k)))
     \<and> (\<forall>k. x \<le> k \<and> k < r \<longrightarrow> atpeak (its' ! (length its - k)) = 0)"

subsection \<open>A concrete environment and concrete inputs\<close>

text \<open>
  Modelled from the spec: \<^verbatim>\<open>pmCartLineInit\<close> of posemath.c is absent. Section 3 of
  the specification: a Cartesian line has a start, an end, a unit direction, a
  magnitude and a zero-magnitude flag; the unit direction is defined only when the
  magnitude is positive. The theorems below hold for every line constructor; this one
  serves the closed examples.
\<close>

definition pmCartLineInit_spec :: "PmCartesian \<Rightarrow> PmCartesian \<Rightarrow> PmCartLine" where
  "pmCartLineInit_spec s e =
     (let d = \<lparr>cart_x = cart_x e - cart_x s, cart_y = cart_y e - cart_y s,
               cart_z = cart_z e - cart_z s\<rparr>;
          m = pmCartMag d
      in \<lparr>line_start = s, line_end = e,
          uVec = (if m > 0
                  then \<lparr>cart_x = cart_x d / m, cart_y = cart_y d / m, cart_z = cart_z d / m\<rparr>
                  else d),
          tmag = m,
          tmag_zero = (if m > 0 then 0 else 1)\<rparr>)"

definition cart0 :: PmCartesian where
  "cart0 = \<lparr>cart_x = 0, cart_y = 0, cart_z = 0\<rparr>"

definition line0 :: PmCartLine where
  "line0 = \<lparr>line_start = cart0, line_end = cart0, uVec = cart0, tmag = 0, tmag_zero = 1\<rparr>"

definition sd0 :: syncdio_t where
  "sd0 = \<lparr>anychanged = 0, dio_mask = 0, aio_mask = 0, dios = [], aios = []\<rparr>"

text \<open>A segment with every field zero: the stack slot of the examples.\<close>

definition tc0 :: TC_STRUCT where
  "tc0 = \<lparr>cycle_time = 0, progress = 0, target = 0, reqvel = 0, maxaccel = 0, maxvel = 0,
          currentvel = 0, finalvel = 0, accel_scale = 0, tc_id = 0,
          coords = Line \<lparr>l_xyz = line0, l_abc = line0, l_uvw = line0\<rparr>,
          motion_type = 0, active = 0, canon_motion_type = 0, term_cond = 0, blending = 0,
          blend_vel = 0, tolerance = 0, synchronized = 0, vel_at_blend_start = 0,
          sync_accel = 0, uu_per_rev = 0, enables = 0, atspeed = 0, tc_syncdio = sd0,
          indexrotary = 0, atpeak = 0\<rparr>"

text \<open>
  The environment of the closed examples. The values of the macro constants are
  representative (three distinct termination conditions, three distinct segment
  kinds, small positive epsilons); the circle functions are placeholders, and no
  example depends on the circle they return; the unit vectors of a segment are
  those of its line.
\<close>

definition E0 :: ext where
  "E0 = \<lparr>TP_ANGLE_EPSILON = 1 / 1000000, TP_MAG_EPSILON = 1 / 1000000,
         TP_ACCEL_EPSILON = 1 / 1000000, TP_LOOKAHEAD_DEPTH = 40,
         TC_TERM_COND_STOP = 1, TC_TERM_COND_PARABOLIC = 2, TC_TERM_COND_TANGENT = 3,
         TC_SYNC_POSITION = 2, TC_LINEAR = 1, TC_CIRCULAR = 2, TC_RIGIDTAP = 3,
         EMC_MOTION_TYPE_TRAVERSE = 1, TAPPING = 1, num_dio = 0, num_aio = 0,
         pmCartLineInit = pmCartLineInit_spec,
         pmCircleInit = (\<lambda>s e c n t. \<lparr>center = c, normal = n, rTan = cart0, rPerp = cart0,
                                       rHelix = cart0, radius = 0, angle = 0, spiral = 0\<rparr>),
         pmCirclePoint = (\<lambda>c a. center c),
         tcGetEndingUnitVector = (\<lambda>tc. uVec (l_xyz (line_of (coords tc)))),
         tcGetStartingUnitVector = (\<lambda>tc. uVec (l_xyz (line_of (coords tc)))),
         stack_tc = tc0\<rparr>"

definition g0 :: globals where
  "g0 = \<lparr>emcmotStatus = \<lparr>net_feed_scale = 1, spindleSync = 0, current_vel = 0,
                          requested_vel = 0, distance_to_go = 0, dtg = ZERO_EMC_POSE\<rparr>,
         syncdio = sd0\<rparr>"

text \<open>
  An idle planner at the origin with a queue of capacity \<open>n\<close>, cycle time 1 ms,
  and the termination condition \<open>cond\<close> for the moves to come.
\<close>

definition tp_idle :: "nat \<Rightarrow> int \<Rightarrow> TP_STRUCT" where
  "tp_idle n cond =
     \<lparr>queue = \<lparr>q_items = [], q_size = n\<rparr>,
      spindle = \<lparr>sp_offset = 0, sp_revs = 0, waiting_for_index = -1, waiting_for_atspeed = -1\<rparr>,
      queueSize = int n, cycleTime = 1 / 1000, vMax = 100, ini_maxvel = 200, vScale = 1,
      aMax = 1000, vLimit = 1000, wMax = 0, wDotMax = 0, nextId = 0, execId = 0,
      termCond = cond, currentPos = ZERO_EMC_POSE, goalPos = ZERO_EMC_POSE,
      tp_tolerance = 0, tp_done = 1, depth = 0, activeDepth = 0, aborting = 0, pausing = 0,
      motionType = 0, velocity_mode = 0, tp_synchronized = 0, tp_uu_per_rev = 0\<rparr>"

text \<open>The pose with the given x, y and z and the other six axes at zero.\<close>

definition pose_xyz :: "real \<Rightarrow> real \<Rightarrow> real \<Rightarrow> EmcPose" where
  "pose_xyz x y z =
     \<lparr>tran = \<lparr>cart_x = x, cart_y = y, cart_z = z\<rparr>,
      pose_a = 0, pose_b = 0, pose_c = 0, pose_u = 0, pose_v = 0, pose_w = 0\<rparr>"

text \<open>
  The planner that a call of an adding function returns (the idle planner of
  capacity 0 stands for a NULL pointer); the planner after one line from the origin
  to (1, 0, 0) entered a queue of capacity \<open>n\<close> under the termination condition
  \<open>cond\<close>; and the segment that \<^verbatim>\<open>tpAddLine\<close> builds for a line to the pose
  \<open>e\<close> before it calls the blend handler.
\<close>

definition planner_after :: "int \<times> TP_STRUCT option \<times> globals \<Rightarrow> TP_STRUCT" where
  "planner_after r = (case fst (snd r) of Some tp \<Rightarrow> tp | None \<Rightarrow> tp_idle 0 0)"

definition planner_x1 :: "nat \<Rightarrow> int \<Rightarrow> TP_STRUCT" where
  "planner_x1 n cond =
     planner_after (tpAddLine E0 (Some (tp_idle n cond)) g0 (pose_xyz 1 0 0) 2 100 200 1000 0 0 (-1))"

definition segment_to :: "TP_STRUCT \<Rightarrow> EmcPose \<Rightarrow> TC_STRUCT" where
  "segment_to tp e = fst (tpAddLine_tc E0 tp g0 e 2 100 200 1000 0 0 (-1))"

text \<open>
  The idle planner after \<^verbatim>\<open>tpSetSpindleSync\<close> with 0.1 units per revolution in
  position mode.
\<close>

definition tp_tapping :: TP_STRUCT where
  "tp_tapping = snd (tpSetSpindleSync (tp_idle 4 2) (1 / 10) 0)"

text \<open>
  A full planner with the spindle synchronisation on: one Parabolic line to
  (1, 0, 0) in a queue of capacity 1, then \<^verbatim>\<open>tpSetSpindleSync\<close> with 0.1 units
  per revolution. And the process-wide objects with one digital output staged, as
  \<^verbatim>\<open>tpSetDout\<close> leaves them for index 0 and a positive start value. (The
  environment of the examples has \<open>num_dio = 0\<close>, so \<^verbatim>\<open>tpClearDIOs\<close> resets the
  flag and the masks and leaves the slot itself.)
\<close>

definition tp_full :: TP_STRUCT where
  "tp_full = snd (tpSetSpindleSync (planner_x1 1 2) (1 / 10) 0)"

definition g_staged :: globals where
  "g_staged =
     g0\<lparr>syncdio := \<lparr>anychanged = 1, dio_mask = 1, aio_mask = 0, dios = [1], aios = []\<rparr>\<rparr>"

text \<open>
  A line from the origin to (2, 0, 0), built under the termination condition
  \<open>cond\<close> with the requested velocity 100 and the acceleration 1000, in flight at
  velocity 100 when 1597/32000 of its length is left. The discriminant of the
  profiler is then 1/16, and the new velocity it computes is -1/4.
\<close>

definition tc_late :: "int \<Rightarrow> TC_STRUCT" where
  "tc_late cond =
     (segment_to (tp_idle 4 cond) (pose_xyz 2 0 0))\<lparr>progress := 62403 / 32000, currentvel := 100\<rparr>"

text \<open>
  The planner after two collinear lines of length 1 entered its queue under the
  termination condition Tangent: the first with \<open>ini_maxvel = 1\<close>, the second
  with \<open>ini_maxvel = 2\<close> and the acceleration 2.
\<close>

definition planner_two :: TP_STRUCT where
  "planner_two =
     planner_after (tpAddLine E0
       (Some (planner_after (tpAddLine E0 (Some (tp_idle 4 3)) g0 (pose_xyz 1 0 0) 2 1 1 2 0 0 (-1))))
       g0 (pose_xyz 2 0 0) 2 2 2 2 0 0 (-1))"

section \<open>Properties\<close>

subsection \<open>Unfolding set for the closed examples\<close>

lemmas ex_defs = E0_def g0_def tp_idle_def pose_xyz_def tc0_def sd0_def line0_def cart0_def
  pmCartLineInit_spec_def ZERO_EMC_POSE_def pmCartMag_def pmSq_def pmSqrt_def pmCartCartDot_def
  planner_after_def

subsection \<open>Feed override\<close>

text \<open>
  Claim C6. For every planner state and segment, the feed override factor is 1 when
  the segment's canonical kind is Traverse or its sync mode is Position; otherwise it
  is 0 when the planner is pausing or aborting; otherwise it is the net feed scale
  of the status block. The first case that matches decides.
\<close>

theorem tpGetFeedOverride_policy:
  "(canon_motion_type tc = EMC_MOTION_TYPE_TRAVERSE E \<or> synchronized tc = TC_SYNC_POSITION E
      \<longrightarrow> tpGetFeedOverride E g tp tc = 1)
   \<and> (canon_motion_type tc \<noteq> EMC_MOTION_TYPE_TRAVERSE E \<and> synchronized tc \<noteq> TC_SYNC_POSITION E
        \<and> (pausing tp \<noteq> 0 \<or> aborting tp \<noteq> 0)
      \<longrightarrow> tpGetFeedOverride E g tp tc = 0)
   \<and> (canon_motion_type tc \<noteq> EMC_MOTION_TYPE_TRAVERSE E \<and> synchronized tc \<noteq> TC_SYNC_POSITION E
        \<and> pausing tp = 0 \<and> aborting tp = 0
      \<longrightarrow> tpGetFeedOverride E g tp tc = net_feed_scale (emcmotStatus g))"
  by (simp add: tpGetFeedOverride_def)

theorem tpGetFeedOverride_policy_witness:
  "tpGetFeedOverride E0 g0 ((tp_idle 4 2)\<lparr>pausing := 1\<rparr>) (tc0\<lparr>canon_motion_type := 1\<rparr>) = 1
   \<and> tpGetFeedOverride E0 g0 ((tp_idle 4 2)\<lparr>pausing := 1\<rparr>) (tc0\<lparr>canon_motion_type := 2\<rparr>) = 0
   \<and> tpGetFeedOverride E0 (g0\<lparr>emcmotStatus := (emcmotStatus g0)\<lparr>net_feed_scale := 1 / 2\<rparr>\<rparr>)
        (tp_idle 4 2) (tc0\<lparr>canon_motion_type := 2\<rparr>) = 1 / 2"
  using tpGetFeedOverride_policy [of "tc0\<lparr>canon_motion_type := 1\<rparr>" E0 g0 "(tp_idle 4 2)\<lparr>pausing := 1\<rparr>"]
    tpGetFeedOverride_policy [of "tc0\<lparr>canon_motion_type := 2\<rparr>" E0 g0 "(tp_idle 4 2)\<lparr>pausing := 1\<rparr>"]
    tpGetFeedOverride_policy [of "tc0\<lparr>canon_motion_type := 2\<rparr>" E0
      "g0\<lparr>emcmotStatus := (emcmotStatus g0)\<lparr>net_feed_scale := 1 / 2\<rparr>\<rparr>" "tp_idle 4 2"]
  by (simp add: ex_defs)

subsection \<open>Clear, SetPos and the limit setters\<close>

text \<open>
  Claim C9. For every planner and every pose \<open>p\<close>, \<^verbatim>\<open>tpClear\<close> followed by
  \<^verbatim>\<open>tpSetPos\<close> with \<open>p\<close> leaves a planner for which \<^verbatim>\<open>tpGetPos\<close> returns \<open>p\<close>
  (with status 0) and \<^verbatim>\<open>tpIsDone\<close> returns 1.
\<close>

theorem tpClear_tpSetPos:
  "(case tpClear E tp g of (r1, tp1, g1) \<Rightarrow>
      case tpSetPos (Some tp1) p of (r2, tpo2) \<Rightarrow>
        tpGetPos tpo2 = (0, p) \<and> tpIsDone tpo2 = 1)"
  by (simp add: tpClear_def tpSetPos_def tpGetPos_def tpIsDone_def tpClearDIOs_def Let_def)

theorem tpClear_tpSetPos_witness:
  "(case tpClear E0 (planner_x1 4 2) g0 of (r1, tp1, g1) \<Rightarrow>
      case tpSetPos (Some tp1) (pose_xyz 1 2 3) of (r2, tpo2) \<Rightarrow>
        tpGetPos tpo2 = (0, pose_xyz 1 2 3) \<and> tpIsDone tpo2 = 1)"
  using tpClear_tpSetPos [where E = E0 and tp = "planner_x1 4 2" and g = g0 and p = "pose_xyz 1 2 3"]
  by simp

text \<open>
  Claim C10. For a planner that is not NULL and a negative argument,
  \<^verbatim>\<open>tpSetVlimit\<close> returns 0 and stores the limit 0, whereas \<^verbatim>\<open>tpSetCycleTime\<close>,
  \<^verbatim>\<open>tpSetVmax\<close> and \<^verbatim>\<open>tpSetAmax\<close> return -1 on an argument that is not positive and
  leave the planner as it was.
\<close>

theorem tpSetVlimit_negative:
  assumes "vLimit' < 0" and "secs \<le> 0" and "vMax' \<le> 0 \<or> ini_maxvel' \<le> 0" and "aMax' \<le> 0"
  shows "tpSetVlimit (Some tp) vLimit' = (0, Some (tp\<lparr>vLimit := 0\<rparr>))
         \<and> tpSetCycleTime (Some tp) secs = (-1, Some tp)
         \<and> tpSetVmax (Some tp) vMax' ini_maxvel' = (-1, Some tp)
         \<and> tpSetAmax (Some tp) aMax' = (-1, Some tp)"
  using assms
  by (simp add: tpSetVlimit_def tpSetCycleTime_def tpSetVmax_def tpSetAmax_def)

theorem tpSetVlimit_negative_witness:
  "tpSetVlimit (Some (tp_idle 4 2)) (-5) = (0, Some ((tp_idle 4 2)\<lparr>vLimit := 0\<rparr>))
   \<and> tpSetCycleTime (Some (tp_idle 4 2)) 0 = (-1, Some (tp_idle 4 2))
   \<and> tpSetVmax (Some (tp_idle 4 2)) 100 (-1) = (-1, Some (tp_idle 4 2))
   \<and> tpSetAmax (Some (tp_idle 4 2)) (-1000) = (-1, Some (tp_idle 4 2))"
  using tpSetVlimit_negative [of "-5" 0 100 "-1" "-1000" "tp_idle 4 2"]
  by simp

subsection \<open>The blend-arc builder and the blend handler\<close>

lemma fst_Let: "(\<And>x. fst (f x) = c) \<Longrightarrow> fst (Let a f) = c"
  by simp

lemma fst_case_prod: "(\<And>x y. fst (f x y) = c) \<Longrightarrow> fst (case_prod f p) = c"
  by (cases p) simp

lemma fst_If: "fst a = c \<Longrightarrow> fst b = c \<Longrightarrow> fst (If q a b) = c"
  by simp

lemma tpCreateBlendArc_rc: "fst (tpCreateBlendArc E g tp prev_tc tc blend_tc) = -1"
  unfolding tpCreateBlendArc_def
  by (intro fst_Let fst_case_prod fst_If) simp_all

lemma tpCheckNeedBlendArc_1:
  "tpCheckNeedBlendArc E tp (Some prev_tc) (Some tc) period = 1 \<longleftrightarrow> nearly_tangent E prev_tc tc"
  unfolding tpCheckNeedBlendArc_def tpCalculateUnitCartAngle_def nearly_tangent_def Let_def
    xyz_dot_def [symmetric]
  by (simp add: not_less not_le)

lemma tpCreateBlendArc_ex: "\<exists>bl. tpCreateBlendArc E g tp prev_tc tc blend_tc = (-1, bl)"
  using tpCreateBlendArc_rc [of E g tp prev_tc tc blend_tc]
  by (cases "tpCreateBlendArc E g tp prev_tc tc blend_tc") simp

lemma tpHandleBlendArc_eq:
  "tpHandleBlendArc E g tp tc end' =
     (case tcqLast (queue tp) of
        None \<Rightarrow> (-1, tp, tc)
      | Some prev_tc \<Rightarrow>
          if \<not> progress prev_tc > 0 \<and> nearly_tangent E prev_tc tc
          then (0, tp\<lparr>queue := tcqStoreLast (queue tp)
                                  (prev_tc\<lparr>term_cond := TC_TERM_COND_TANGENT E\<rparr>)\<rparr>, tc)
          else (-1, tp, tc))"
proof (cases "tcqLast (queue tp)")
  case None
  then show ?thesis by (simp add: tpHandleBlendArc_def)
next
  case (Some prev_tc)
  obtain bl where cr: "tpCreateBlendArc E g tp prev_tc tc (stack_tc E) = (-1, bl)"
    using tpCreateBlendArc_ex by blast
  define n where "n = tpCheckNeedBlendArc E tp (Some prev_tc) (Some tc) (cycleTime tp)"
  have nt: "nearly_tangent E prev_tc tc \<longleftrightarrow> n = 1"
    unfolding n_def by (simp add: tpCheckNeedBlendArc_1)
  consider (zero) "n = 0" | (one) "n = 1" | (other) "n \<noteq> 0" "n \<noteq> 1"
    by blast
  then show ?thesis
  proof cases
    case zero
    then have c: "tpCheckNeedBlendArc E tp (Some prev_tc) (Some tc) (cycleTime tp) = 0"
      by (simp add: n_def)
    have "\<not> nearly_tangent E prev_tc tc" using zero nt by simp
    then show ?thesis
      by (simp add: tpHandleBlendArc_def Some c cr)
  next
    case one
    then have c: "tpCheckNeedBlendArc E tp (Some prev_tc) (Some tc) (cycleTime tp) = 1"
      by (simp add: n_def)
    have "nearly_tangent E prev_tc tc" using one nt by simp
    then show ?thesis
      by (simp add: tpHandleBlendArc_def Some c)
  next
    case other
    then have c: "tpCheckNeedBlendArc E tp (Some prev_tc) (Some tc) (cycleTime tp) \<noteq> 0"
      "tpCheckNeedBlendArc E tp (Some prev_tc) (Some tc) (cycleTime tp) \<noteq> 1"
      by (simp_all add: n_def)
    have "\<not> nearly_tangent E prev_tc tc" using other nt by simp
    then show ?thesis
      by (simp add: tpHandleBlendArc_def Some c)
  qed
qed

lemmas add_defs = tpAddLine_def tpAddLine_tc_def tpErrorCheck_def
  tpConvertEmcPosetoPmCartesian_def tpInitializeNewSegment_def tpClipVelocityLimit_def
  tpAddSegmentToQueue_def tcqPut_def tcqLast_def tcqLen_def tcqStoreLast_def tcqStore_def
  fmin_def fmax_def tpGetScaledAccel_def tpClearDIOs_def PM_PI_def
  tpHandleBlendArc_eq nearly_tangent_def xyz_dot_def

lemma tpAddLine_tc_line:
  "motion_type (fst (tpAddLine_tc E tp g end' type' vel im acc en ats ir)) = TC_LINEAR E
   \<and> (\<exists>l. coords (fst (tpAddLine_tc E tp g end' type' vel im acc en ats ir)) = Line l)"
  by (simp add: tpAddLine_tc_def Let_def split: prod.split)

lemma tpHandleBlendArc_effect:
  assumes "tpHandleBlendArc E g tp tc end' = (r, tp', tc')"
  shows "tc' = tc \<and>
     (\<exists>its. tp' = tp\<lparr>queue := (queue tp)\<lparr>q_items := its\<rparr>\<rparr>
        \<and> length its = length (q_items (queue tp))
        \<and> (\<forall>i < length its. its ! i = q_items (queue tp) ! i
              \<or> its ! i = (q_items (queue tp) ! i)\<lparr>term_cond := TC_TERM_COND_TANGENT E\<rparr>))"
proof (cases "tcqLast (queue tp)")
  case None
  with assms have "tp' = tp" "tc' = tc" by (simp_all add: tpHandleBlendArc_eq)
  then show ?thesis by (auto intro!: exI [of _ "q_items (queue tp)"])
next
  case (Some prev_tc)
  then have ne: "q_items (queue tp) \<noteq> []" and pr: "prev_tc = last (q_items (queue tp))"
    by (auto simp: tcqLast_def split: if_splits)
  show ?thesis
  proof (cases "\<not> progress prev_tc > 0 \<and> nearly_tangent E prev_tc tc")
    case False
    with assms Some have "tp' = tp" "tc' = tc" by (auto simp: tpHandleBlendArc_eq)
    then show ?thesis by (auto intro!: exI [of _ "q_items (queue tp)"])
  next
    case True
    let ?old = "q_items (queue tp)"
    let ?its = "?old[length ?old - 1 := prev_tc\<lparr>term_cond := TC_TERM_COND_TANGENT E\<rparr>]"
    from assms Some True have "tc' = tc"
      and "tp' = tp\<lparr>queue := tcqStoreLast (queue tp)
                              (prev_tc\<lparr>term_cond := TC_TERM_COND_TANGENT E\<rparr>)\<rparr>"
      by (auto simp: tpHandleBlendArc_eq)
    moreover have "tcqStoreLast (queue tp) (prev_tc\<lparr>term_cond := TC_TERM_COND_TANGENT E\<rparr>)
                   = (queue tp)\<lparr>q_items := ?its\<rparr>"
      using ne by (simp add: tcqStoreLast_def tcqStore_def tcqLen_def nat_diff_distrib')
    moreover have "\<forall>i < length ?its. ?its ! i = ?old ! i
              \<or> ?its ! i = (?old ! i)\<lparr>term_cond := TC_TERM_COND_TANGENT E\<rparr>"
      using ne pr by (auto simp: nth_list_update last_conv_nth)
    ultimately show ?thesis by (auto intro!: exI [of _ ?its])
  qed
qed

lemma tpClipVelocityLimit_fields:
  "motion_type (tpClipVelocityLimit tp tc) = motion_type tc"
  "coords (tpClipVelocityLimit tp tc) = coords tc"
  "target (tpClipVelocityLimit tp tc) = target tc"
  "maxvel (tpClipVelocityLimit tp tc) \<le> 0.5 * target tc / cycleTime tp"
  by (simp_all add: tpClipVelocityLimit_def Let_def)

lemma tpAddLine_result:
  assumes "aborting tp = 0"
  shows "\<exists>its tcN g'.
     length its = length (q_items (queue tp))
     \<and> (\<forall>i < length its. its ! i = q_items (queue tp) ! i
              \<or> its ! i = (q_items (queue tp) ! i)\<lparr>term_cond := TC_TERM_COND_TANGENT E\<rparr>)
     \<and> motion_type tcN = TC_LINEAR E \<and> (\<exists>l. coords tcN = Line l)
     \<and> maxvel tcN \<le> 0.5 * target tcN / cycleTime tp
     \<and> tpAddLine E (Some tp) g end' type' vel im acc en ats ir =
         (if q_size (queue tp) \<le> length (q_items (queue tp))
          then (-1, Some (tp\<lparr>queue := (queue tp)\<lparr>q_items := its\<rparr>\<rparr>), g')
          else (0, Some (tp\<lparr>queue := (queue tp)\<lparr>q_items := its @ [tcN]\<rparr>,
                             goalPos := end', tp_done := 0,
                             depth := int (length (q_items (queue tp))) + 1,
                             nextId := nextId tp + 1\<rparr>), g'))"
proof -
  obtain tc g' where seg: "tpAddLine_tc E tp g end' type' vel im acc en ats ir = (tc, g')"
    by (cases "tpAddLine_tc E tp g end' type' vel im acc en ats ir")
  obtain r tp1 tc1 where h: "tpHandleBlendArc E g' tp tc end' = (r, tp1, tc1)"
    by (cases "tpHandleBlendArc E g' tp tc end'")
  from tpHandleBlendArc_effect [OF h] obtain its where
    tc1: "tc1 = tc" and tp1: "tp1 = tp\<lparr>queue := (queue tp)\<lparr>q_items := its\<rparr>\<rparr>"
    and len: "length its = length (q_items (queue tp))"
    and its: "\<forall>i < length its. its ! i = q_items (queue tp) ! i
              \<or> its ! i = (q_items (queue tp) ! i)\<lparr>term_cond := TC_TERM_COND_TANGENT E\<rparr>"
    by blast
  let ?tcN = "(tpClipVelocityLimit tp1 tc)\<lparr>tc_id := nextId tp\<rparr>"
  from tpAddLine_tc_line [of E tp g end' type' vel im acc en ats ir] seg
  have lin: "motion_type tc = TC_LINEAR E" "\<exists>l. coords tc = Line l" by simp_all
  have "motion_type ?tcN = TC_LINEAR E" "\<exists>l. coords ?tcN = Line l"
    using lin by (simp_all add: tpClipVelocityLimit_fields)
  moreover have "maxvel ?tcN \<le> 0.5 * target ?tcN / cycleTime tp"
    using tpClipVelocityLimit_fields(4) [of tp1 tc] by (simp add: tpClipVelocityLimit_fields tp1)
  moreover have "tpAddLine E (Some tp) g end' type' vel im acc en ats ir =
         (if q_size (queue tp) \<le> length (q_items (queue tp))
          then (-1, Some (tp\<lparr>queue := (queue tp)\<lparr>q_items := its\<rparr>\<rparr>), g')
          else (0, Some (tp\<lparr>queue := (queue tp)\<lparr>q_items := its @ [?tcN]\<rparr>,
                             goalPos := end', tp_done := 0,
                             depth := int (length (q_items (queue tp))) + 1,
                             nextId := nextId tp + 1\<rparr>), g'))"
    using assms seg h len
    by (simp add: tpAddLine_def tpErrorCheck_def tc1 tp1 tpAddSegmentToQueue_def tcqPut_def
        tcqLen_def Let_def)
  ultimately show ?thesis using len its by blast
qed

text \<open>
  Claim C1. Every call of \<^verbatim>\<open>tpCreateBlendArc\<close> returns -1, whatever its arguments:
  each path through the function ends in a \<^verbatim>\<open>return -1\<close>, the last of them
  before the arc would be built. So whenever the handler finds that an arc is
  needed (\<^verbatim>\<open>tpCheckNeedBlendArc\<close> returned 0) it returns -1 and leaves the planner
  and the new segment as they were, which is the fall back to parabolic blending;
  and after a call of \<^verbatim>\<open>tpAddLine\<close> every queued segment is one that was queued
  before (the last of them perhaps with its termination condition set to Tangent)
  or the new line: no blend arc enters the queue.
\<close>

theorem tpCreateBlendArc_always_fails:
  "fst (tpCreateBlendArc E g tp prev_tc tc blend_tc) = -1
   \<and> (tcqLast (queue tp) = Some prev_tc
        \<and> tpCheckNeedBlendArc E tp (Some prev_tc) (Some tc) (cycleTime tp) = 0
      \<longrightarrow> tpHandleBlendArc E g tp tc end' = (-1, tp, tc))
   \<and> (\<exists>r tp' g' its.
        tpAddLine E (Some tp) g end' type' vel im acc en ats ir = (r, Some tp', g')
        \<and> length its = length (q_items (queue tp))
        \<and> (\<forall>i < length its. its ! i = q_items (queue tp) ! i
              \<or> its ! i = (q_items (queue tp) ! i)\<lparr>term_cond := TC_TERM_COND_TANGENT E\<rparr>)
        \<and> (q_items (queue tp') = its
            \<or> (\<exists>tcN l. q_items (queue tp') = its @ [tcN]
                  \<and> motion_type tcN = TC_LINEAR E \<and> coords tcN = Line l)))"
proof (intro conjI impI)
  show "fst (tpCreateBlendArc E g tp prev_tc tc blend_tc) = -1"
    by (rule tpCreateBlendArc_rc)
next
  assume a: "tcqLast (queue tp) = Some prev_tc
        \<and> tpCheckNeedBlendArc E tp (Some prev_tc) (Some tc) (cycleTime tp) = 0"
  then have "\<not> nearly_tangent E prev_tc tc"
    using tpCheckNeedBlendArc_1 [of E tp prev_tc tc "cycleTime tp"] by simp
  with a show "tpHandleBlendArc E g tp tc end' = (-1, tp, tc)"
    by (simp add: tpHandleBlendArc_eq)
next
  let ?old = "q_items (queue tp)"
  show "\<exists>r tp' g' its.
        tpAddLine E (Some tp) g end' type' vel im acc en ats ir = (r, Some tp', g')
        \<and> length its = length ?old
        \<and> (\<forall>i < length its. its ! i = ?old ! i
              \<or> its ! i = (?old ! i)\<lparr>term_cond := TC_TERM_COND_TANGENT E\<rparr>)
        \<and> (q_items (queue tp') = its
            \<or> (\<exists>tcN l. q_items (queue tp') = its @ [tcN]
                  \<and> motion_type tcN = TC_LINEAR E \<and> coords tcN = Line l))"
  proof (cases "aborting tp = 0")
    case False
    then have "tpAddLine E (Some tp) g end' type' vel im acc en ats ir = (-1, Some tp, g)"
      by (simp add: tpAddLine_def tpErrorCheck_def)
    then show ?thesis by (intro exI [of _ "-1"] exI [of _ tp] exI [of _ g] exI [of _ ?old]) simp
  next
    case True
    from tpAddLine_result [OF True, of E g end' type' vel im acc en ats ir]
    obtain its tcN g' l where
      len: "length its = length ?old"
      and its: "\<forall>i < length its. its ! i = ?old ! i
              \<or> its ! i = (?old ! i)\<lparr>term_cond := TC_TERM_COND_TANGENT E\<rparr>"
      and lin: "motion_type tcN = TC_LINEAR E" "coords tcN = Line l"
      and eq: "tpAddLine E (Some tp) g end' type' vel im acc en ats ir =
         (if q_size (queue tp) \<le> length ?old
          then (-1, Some (tp\<lparr>queue := (queue tp)\<lparr>q_items := its\<rparr>\<rparr>), g')
          else (0, Some (tp\<lparr>queue := (queue tp)\<lparr>q_items := its @ [tcN]\<rparr>,
                             goalPos := end', tp_done := 0,
                             depth := int (length ?old) + 1,
                             nextId := nextId tp + 1\<rparr>), g'))"
      by blast
    show ?thesis
    proof (cases "q_size (queue tp) \<le> length ?old")
      case True
      with eq len its show ?thesis
        by (intro exI [of _ "-1"] exI [of _ "tp\<lparr>queue := (queue tp)\<lparr>q_items := its\<rparr>\<rparr>"]
              exI [of _ g'] exI [of _ its]) simp
    next
      case False
      with eq len its lin show ?thesis
        by (intro exI [of _ 0]
              exI [of _ "tp\<lparr>queue := (queue tp)\<lparr>q_items := its @ [tcN]\<rparr>,
                             goalPos := end', tp_done := 0,
                             depth := int (length ?old) + 1,
                             nextId := nextId tp + 1\<rparr>"]
              exI [of _ g'] exI [of _ its]) simp
    qed
  qed
qed

theorem tpCreateBlendArc_always_fails_witness:
  "tcqLast (queue (planner_x1 4 2)) = Some (last (q_items (queue (planner_x1 4 2))))
   \<and> tpCheckNeedBlendArc E0 (planner_x1 4 2) (Some (last (q_items (queue (planner_x1 4 2)))))
        (Some (segment_to (planner_x1 4 2) (pose_xyz 1 1 0))) (cycleTime (planner_x1 4 2)) = 0
   \<and> tpHandleBlendArc E0 g0 (planner_x1 4 2) (segment_to (planner_x1 4 2) (pose_xyz 1 1 0))
        (pose_xyz 1 1 0)
      = (-1, planner_x1 4 2, segment_to (planner_x1 4 2) (pose_xyz 1 1 0))
   \<and> fst (tpCreateBlendArc E0 g0 (planner_x1 4 2) (last (q_items (queue (planner_x1 4 2))))
             (segment_to (planner_x1 4 2) (pose_xyz 1 1 0)) (stack_tc E0)) = -1"
proof -
  let ?tp = "planner_x1 4 2"
  let ?prev = "last (q_items (queue ?tp))"
  let ?tc = "segment_to ?tp (pose_xyz 1 1 0)"
  have a: "tcqLast (queue ?tp) = Some ?prev"
    by (simp add: planner_x1_def segment_to_def ex_defs add_defs Let_def)
  have b: "tpCheckNeedBlendArc E0 ?tp (Some ?prev) (Some ?tc) (cycleTime ?tp) = 0"
    using pi_ge_two
    by (simp add: planner_x1_def segment_to_def ex_defs add_defs tpCheckNeedBlendArc_def tpCalculateUnitCartAngle_def Let_def)
  from tpCreateBlendArc_always_fails
         [of E0 g0 ?tp ?prev ?tc "stack_tc E0" "pose_xyz 1 1 0" 2 100 200 1000 0 0 "-1"]
  have "fst (tpCreateBlendArc E0 g0 ?tp ?prev ?tc (stack_tc E0)) = -1"
    and "tpHandleBlendArc E0 g0 ?tp ?tc (pose_xyz 1 1 0) = (-1, ?tp, ?tc)"
    using a b by blast+
  with a b show ?thesis by blast
qed

text \<open>
  Claim C5, as amended. The handler sets the termination condition of the last
  queued segment to Tangent, and returns 0, exactly when there is a last queued
  segment, its progress is not positive, and the two segments are nearly tangent
  (the dot product of their xyz unit vectors lies in [-1, 1] and the angle between
  them is below \<open>crit_angle\<close>). The kinds of the two segments, their ABC and UVW
  magnitudes and the termination condition of the previous segment play no part,
  because the code tests the angle before it looks at them. In every other case the
  handler returns -1 and writes nothing.
\<close>

theorem tpHandleBlendArc_promotes_iff_nearly_tangent:
  "tpHandleBlendArc E g tp tc end' =
     (case tcqLast (queue tp) of
        None \<Rightarrow> (-1, tp, tc)
      | Some prev_tc \<Rightarrow>
          if \<not> progress prev_tc > 0 \<and> nearly_tangent E prev_tc tc
          then (0, tp\<lparr>queue := tcqStoreLast (queue tp)
                                  (prev_tc\<lparr>term_cond := TC_TERM_COND_TANGENT E\<rparr>)\<rparr>, tc)
          else (-1, tp, tc))"
  by (rule tpHandleBlendArc_eq)

theorem tpHandleBlendArc_promotes_iff_nearly_tangent_witness:
  "tpHandleBlendArc E0 g0 (planner_x1 4 2) (segment_to (planner_x1 4 2) (pose_xyz 2 0 0))
        (pose_xyz 2 0 0)
     = (0, (planner_x1 4 2)\<lparr>queue := tcqStoreLast (queue (planner_x1 4 2))
              ((last (q_items (queue (planner_x1 4 2))))\<lparr>term_cond := TC_TERM_COND_TANGENT E0\<rparr>)\<rparr>,
        segment_to (planner_x1 4 2) (pose_xyz 2 0 0))"
proof -
  let ?tp = "planner_x1 4 2"
  let ?prev = "last (q_items (queue ?tp))"
  let ?tc = "segment_to ?tp (pose_xyz 2 0 0)"
  have a: "tcqLast (queue ?tp) = Some ?prev"
    by (simp add: planner_x1_def segment_to_def ex_defs add_defs Let_def)
  have b: "\<not> progress ?prev > 0 \<and> nearly_tangent E0 ?prev ?tc"
    by (simp add: planner_x1_def segment_to_def ex_defs add_defs Let_def)
  show ?thesis
    using tpHandleBlendArc_promotes_iff_nearly_tangent [of E0 g0 ?tp ?tc "pose_xyz 2 0 0"] a b
    by simp
qed

text \<open>
  The statement of claim C5 fails where the previous segment has the termination
  condition Stop: a line to (1, 0, 0) queued under Stop, followed by the collinear
  line to (2, 0, 0), is promoted to Tangent.
\<close>

theorem tpHandleBlendArc_promotes_stop_counterexample:
  "map term_cond (q_items (queue (planner_x1 4 (TC_TERM_COND_STOP E0)))) = [TC_TERM_COND_STOP E0]
   \<and> TC_TERM_COND_STOP E0 \<noteq> TC_TERM_COND_PARABOLIC E0
   \<and> TC_TERM_COND_STOP E0 \<noteq> TC_TERM_COND_TANGENT E0
   \<and> fst (tpHandleBlendArc E0 g0 (planner_x1 4 (TC_TERM_COND_STOP E0))
             (segment_to (planner_x1 4 (TC_TERM_COND_STOP E0)) (pose_xyz 2 0 0)) (pose_xyz 2 0 0)) = 0
   \<and> map term_cond (q_items (queue (fst (snd
        (tpHandleBlendArc E0 g0 (planner_x1 4 (TC_TERM_COND_STOP E0))
             (segment_to (planner_x1 4 (TC_TERM_COND_STOP E0)) (pose_xyz 2 0 0)) (pose_xyz 2 0 0))))))
      = [TC_TERM_COND_TANGENT E0]"
  by (simp add: planner_x1_def segment_to_def ex_defs add_defs Let_def)

subsection \<open>Appending to the queue\<close>

lemma tpAddSegmentToQueue_eq:
  "tpAddSegmentToQueue tp tc e =
     (if q_size (queue tp) \<le> length (q_items (queue tp)) then (-1, tp)
      else (0, tp\<lparr>queue := (queue tp)\<lparr>q_items := q_items (queue tp) @ [tc\<lparr>tc_id := nextId tp\<rparr>]\<rparr>,
                   goalPos := e, tp_done := 0,
                   depth := int (length (q_items (queue tp))) + 1,
                   nextId := nextId tp + 1\<rparr>))"
  by (simp add: tpAddSegmentToQueue_def tcqPut_def tcqLen_def Let_def)

lemma tpAddLine_tc_globals:
  "snd (tpAddLine_tc E tp g end' type' vel im acc en ats ir) = staged_taken E g"
  by (simp add: tpAddLine_tc_def staged_taken_def Let_def split: prod.split)

lemma tpHandleBlendArc_planner:
  "fst (snd (tpHandleBlendArc E g tp tc end')) =
     (if line_promotes E tp tc then last_promoted E tp else tp)"
  by (simp add: tpHandleBlendArc_eq tcqLast_def line_promotes_def last_promoted_def
      tcqStoreLast_def tcqStore_def tcqLen_def nat_diff_distrib')

lemma tpAddLine_full:
  assumes "q_size (queue tp) \<le> length (q_items (queue tp))"
  shows "tpAddLine E (Some tp) g end' type' vel im acc en ats ir =
     (if aborting tp \<noteq> 0 then (-1, Some tp, g)
      else (-1,
            Some (if line_promotes E tp (fst (tpAddLine_tc E tp g end' type' vel im acc en ats ir))
                  then last_promoted E tp else tp),
            staged_taken E g))"
proof -
  obtain tc g' where seg: "tpAddLine_tc E tp g end' type' vel im acc en ats ir = (tc, g')"
    by (cases "tpAddLine_tc E tp g end' type' vel im acc en ats ir")
  have g': "g' = staged_taken E g"
    using tpAddLine_tc_globals [of E tp g end' type' vel im acc en ats ir] seg by simp
  obtain r tp1 tc1 where h: "tpHandleBlendArc E g' tp tc end' = (r, tp1, tc1)"
    by (cases "tpHandleBlendArc E g' tp tc end'")
  have tp1: "tp1 = (if line_promotes E tp tc then last_promoted E tp else tp)"
    using tpHandleBlendArc_planner [of E g' tp tc end'] h by simp
  have full: "q_size (queue tp1) \<le> length (q_items (queue tp1))"
    using assms by (simp add: tp1 last_promoted_def)
  show ?thesis
    using seg h full
    by (simp add: tpAddLine_def tpErrorCheck_def tpAddSegmentToQueue_eq g' tp1 [symmetric])
qed

lemma tpAddCircle_full:
  assumes "q_size (queue tp) \<le> length (q_items (queue tp))"
  shows "tpAddCircle E (Some tp) g end' center' normal' turn type' vel im acc en ats =
     (-1, Some tp, if aborting tp \<noteq> 0 then g else staged_taken E g)"
  using assms
  by (simp add: tpAddCircle_def tpErrorCheck_def tpAddSegmentToQueue_eq staged_taken_def Let_def
      split: prod.split)

lemma tpAddCircle_maxvel_clipped:
  assumes "tpAddCircle E (Some tp) g end' center' normal' turn type' vel im acc en ats
             = (0, Some tp', g')"
    and "0 < cycleTime tp"
  shows "maxvel (last (q_items (queue tp')))
           \<le> 0.5 * target (last (q_items (queue tp'))) / cycleTime tp'"
  using assms
  by (auto simp add: tpAddCircle_def tpErrorCheck_def tpAddSegmentToQueue_eq Let_def
      tpClipVelocityLimit_def split: prod.splits if_splits)

lemma tpAddRigidTap_full:
  assumes "q_size (queue tp) \<le> length (q_items (queue tp))"
  shows "tpAddRigidTap E (Some tp) g end' vel im acc en =
     (-1, Some tp, if aborting tp \<noteq> 0 \<or> tp_synchronized tp = 0 then g else staged_taken E g)"
  using assms
  by (simp add: tpAddRigidTap_def tpErrorCheck_def tpAddSegmentToQueue_eq staged_taken_def Let_def
      split: prod.split)

lemma tp_full_facts:
  "q_size (queue tp_full) \<le> length (q_items (queue tp_full))"
  "aborting tp_full = 0" "tp_synchronized tp_full \<noteq> 0"
  "anychanged (syncdio g_staged) \<noteq> 0"
  by (simp_all add: tp_full_def g_staged_def tpSetSpindleSync_def planner_x1_def segment_to_def
      ex_defs add_defs Let_def)

lemma tp_full_promotes:
  "line_promotes E0 tp_full
     (fst (tpAddLine_tc E0 tp_full g_staged (pose_xyz 2 0 0) 2 100 200 1000 0 0 (-1)))"
  by (simp add: line_promotes_def tp_full_def g_staged_def tpSetSpindleSync_def planner_x1_def
      segment_to_def ex_defs add_defs Let_def)

lemma g_staged_taken:
  "staged_taken E0 g_staged = g0\<lparr>syncdio := sd0\<lparr>dios := [1]\<rparr>\<rparr>"
  by (simp add: staged_taken_def g_staged_def ex_defs add_defs)

lemma tpAddLine_maxvel_clipped:
  assumes "tpAddLine E (Some tp) g end' type' vel im acc en ats ir = (0, Some tp', g')"
    and "0 < cycleTime tp"
  shows "maxvel (last (q_items (queue tp')))
           \<le> 0.5 * target (last (q_items (queue tp'))) / cycleTime tp'"
proof -
  have ab: "aborting tp = 0"
    using assms by (auto simp: tpAddLine_def tpErrorCheck_def split: if_splits)
  from tpAddLine_result [OF ab, of E g end' type' vel im acc en ats ir] assms
  show ?thesis by (auto split: if_splits)
qed

text \<open>
  Claim C7. \<^verbatim>\<open>tpAddRigidTap\<close> returns -1 and leaves the planner (its queue and its
  goal pose with it) and the process-wide objects as they were when the planner's
  spindle synchronisation is off. When it is on, the checks that the three adding
  functions share still reject the call with -1 (the planner is aborting, or the
  queue is full); otherwise the call returns 0, appends one segment and moves the
  goal pose to the end point. That segment is a rigid tap whose \<open>reversal_target\<close>
  is the magnitude of the xyz line from the old goal pose to the end point, whose
  \<open>target\<close> is \<open>reversal_target + 10 * uu_per_rev\<close>, whose substate is
  \<^verbatim>\<open>TAPPING\<close> and whose \<open>atspeed\<close> flag is 1.
\<close>

theorem tpAddRigidTap_sync:
  "(tp_synchronized tp = 0 \<longrightarrow>
      tpAddRigidTap E (Some tp) g end' vel im acc en = (-1, Some tp, g))
   \<and> (tp_synchronized tp \<noteq> 0 \<longrightarrow>
        (if aborting tp \<noteq> 0
         then tpAddRigidTap E (Some tp) g end' vel im acc en = (-1, Some tp, g)
         else if q_size (queue tp) \<le> length (q_items (queue tp))
         then fst (tpAddRigidTap E (Some tp) g end' vel im acc en) = -1
              \<and> fst (snd (tpAddRigidTap E (Some tp) g end' vel im acc en)) = Some tp
         else (\<exists>tp' tc rt.
                 fst (tpAddRigidTap E (Some tp) g end' vel im acc en) = 0
                 \<and> fst (snd (tpAddRigidTap E (Some tp) g end' vel im acc en)) = Some tp'
                 \<and> q_items (queue tp') = q_items (queue tp) @ [tc]
                 \<and> goalPos tp' = end'
                 \<and> motion_type tc = TC_RIGIDTAP E
                 \<and> coords tc = RigidTap rt
                 \<and> reversal_target rt = tmag (pmCartLineInit E (tran (goalPos tp)) (tran end'))
                 \<and> target tc = reversal_target rt + 10 * uu_per_rev tc
                 \<and> uu_per_rev tc = tp_uu_per_rev tp
                 \<and> tap_state rt = TAPPING E
                 \<and> atspeed tc = 1)))"
  by (simp add: tpAddRigidTap_def tpErrorCheck_def tpAddSegmentToQueue_eq
      tpConvertEmcPosetoPmCartesian_def tpInitializeNewSegment_def Let_def split: prod.split)

theorem tpAddRigidTap_sync_witness:
  "tpAddRigidTap E0 (Some (tp_idle 4 2)) g0 (pose_xyz 0 0 1) 10 2000 1000 0
     = (-1, Some (tp_idle 4 2), g0)
   \<and> tp_synchronized tp_tapping \<noteq> 0 \<and> aborting tp_tapping = 0
   \<and> \<not> q_size (queue tp_tapping) \<le> length (q_items (queue tp_tapping))
   \<and> (\<exists>tp' tc rt.
         fst (tpAddRigidTap E0 (Some tp_tapping) g0 (pose_xyz 0 0 1) 10 2000 1000 0) = 0
         \<and> fst (snd (tpAddRigidTap E0 (Some tp_tapping) g0 (pose_xyz 0 0 1) 10 2000 1000 0)) = Some tp'
         \<and> q_items (queue tp') = [tc]
         \<and> coords tc = RigidTap rt
         \<and> reversal_target rt = 1
         \<and> target tc = 2
         \<and> tap_state rt = TAPPING E0
         \<and> atspeed tc = 1)"
proof -
  have a: "tp_synchronized (tp_idle 4 2) = 0"
    by (simp add: ex_defs)
  have b: "tp_synchronized tp_tapping \<noteq> 0" "aborting tp_tapping = 0"
    "\<not> q_size (queue tp_tapping) \<le> length (q_items (queue tp_tapping))"
    "q_items (queue tp_tapping) = []"
    by (simp_all add: tp_tapping_def tpSetSpindleSync_def ex_defs)
  have c: "tmag (pmCartLineInit E0 (tran (goalPos tp_tapping)) (tran (pose_xyz 0 0 1))) = 1"
    by (simp add: tp_tapping_def tpSetSpindleSync_def ex_defs Let_def)
  have d: "tp_uu_per_rev tp_tapping = 1 / 10"
    by (simp add: tp_tapping_def tpSetSpindleSync_def ex_defs)
  from tpAddRigidTap_sync [of "tp_idle 4 2" E0 g0 "pose_xyz 0 0 1" 10 2000 1000 0] a
  have 1: "tpAddRigidTap E0 (Some (tp_idle 4 2)) g0 (pose_xyz 0 0 1) 10 2000 1000 0
     = (-1, Some (tp_idle 4 2), g0)" by blast
  from tpAddRigidTap_sync [of tp_tapping E0 g0 "pose_xyz 0 0 1" 10 2000 1000 0] b
  obtain tp' tc rt where
    "fst (tpAddRigidTap E0 (Some tp_tapping) g0 (pose_xyz 0 0 1) 10 2000 1000 0) = 0"
    "fst (snd (tpAddRigidTap E0 (Some tp_tapping) g0 (pose_xyz 0 0 1) 10 2000 1000 0)) = Some tp'"
    "q_items (queue tp') = [tc]" "coords tc = RigidTap rt"
    "reversal_target rt = tmag (pmCartLineInit E0 (tran (goalPos tp_tapping)) (tran (pose_xyz 0 0 1)))"
    "target tc = reversal_target rt + 10 * uu_per_rev tc"
    "uu_per_rev tc = tp_uu_per_rev tp_tapping"
    "tap_state rt = TAPPING E0" "atspeed tc = 1"
    by auto
  then show ?thesis using 1 b c d by auto
qed

text \<open>
  Claim C8, as amended. When the queue is full, each of the three adding functions
  returns -1, and the goal pose, the \<open>done\<close> flag, the depth, the next id and the
  length of the queue are the ones before the call. \<^verbatim>\<open>tpAddCircle\<close> and
  \<^verbatim>\<open>tpAddRigidTap\<close> return the planner as it was. \<^verbatim>\<open>tpAddLine\<close> has by then
  run the blend handler: it returns the planner as it was, except that the
  termination condition of the last queued segment is Tangent exactly when that
  segment has not started and is nearly tangent to the new line. And a call that
  came as far as the append (the planner is not aborting and, for a rigid tap, the
  spindle synchronisation is on) has copied the staged outputs into the segment it
  then drops, and cleared the stage; a call rejected before leaves the stage alone.
\<close>

theorem append_on_full_queue:
  assumes "q_size (queue tp) \<le> length (q_items (queue tp))"
  shows "tpAddLine E (Some tp) g end' type' vel im acc en ats ir =
           (-1,
            Some (if aborting tp = 0
                     \<and> line_promotes E tp (fst (tpAddLine_tc E tp g end' type' vel im acc en ats ir))
                  then last_promoted E tp else tp),
            if aborting tp = 0 then staged_taken E g else g)
   \<and> tpAddCircle E (Some tp) g end' center' normal' turn type' vel im acc en ats =
           (-1, Some tp, if aborting tp = 0 then staged_taken E g else g)
   \<and> tpAddRigidTap E (Some tp) g end' vel im acc en =
           (-1, Some tp,
            if aborting tp = 0 \<and> tp_synchronized tp \<noteq> 0 then staged_taken E g else g)
   \<and> append_rejected tp (tpAddLine E (Some tp) g end' type' vel im acc en ats ir)
   \<and> append_rejected tp (tpAddCircle E (Some tp) g end' center' normal' turn type' vel im acc en ats)
   \<and> append_rejected tp (tpAddRigidTap E (Some tp) g end' vel im acc en)"
proof -
  have line: "tpAddLine E (Some tp) g end' type' vel im acc en ats ir =
           (-1,
            Some (if aborting tp = 0
                     \<and> line_promotes E tp (fst (tpAddLine_tc E tp g end' type' vel im acc en ats ir))
                  then last_promoted E tp else tp),
            if aborting tp = 0 then staged_taken E g else g)"
    using tpAddLine_full [OF assms, of E g end' type' vel im acc en ats ir] by simp
  have circ: "tpAddCircle E (Some tp) g end' center' normal' turn type' vel im acc en ats =
           (-1, Some tp, if aborting tp = 0 then staged_taken E g else g)"
    using tpAddCircle_full [OF assms, of E g end' center' normal' turn type' vel im acc en ats]
    by simp
  have tap: "tpAddRigidTap E (Some tp) g end' vel im acc en =
           (-1, Some tp,
            if aborting tp = 0 \<and> tp_synchronized tp \<noteq> 0 then staged_taken E g else g)"
    using tpAddRigidTap_full [OF assms, of E g end' vel im acc en] by simp
  have "append_rejected tp (tpAddLine E (Some tp) g end' type' vel im acc en ats ir)"
    unfolding line by (simp add: append_rejected_def last_promoted_def)
  moreover have "append_rejected tp
      (tpAddCircle E (Some tp) g end' center' normal' turn type' vel im acc en ats)"
    unfolding circ by (simp add: append_rejected_def)
  moreover have "append_rejected tp (tpAddRigidTap E (Some tp) g end' vel im acc en)"
    unfolding tap by (simp add: append_rejected_def)
  ultimately show ?thesis using line circ tap by blast
qed

theorem append_on_full_queue_witness:
  "q_size (queue tp_full) \<le> length (q_items (queue tp_full))
   \<and> aborting tp_full = 0 \<and> tp_synchronized tp_full \<noteq> 0
   \<and> anychanged (syncdio g_staged) \<noteq> 0
   \<and> tpAddLine E0 (Some tp_full) g_staged (pose_xyz 2 0 0) 2 100 200 1000 0 0 (-1)
       = (-1, Some (last_promoted E0 tp_full), g0\<lparr>syncdio := sd0\<lparr>dios := [1]\<rparr>\<rparr>)
   \<and> map term_cond (q_items (queue tp_full)) = [TC_TERM_COND_PARABOLIC E0]
   \<and> map term_cond (q_items (queue (last_promoted E0 tp_full))) = [TC_TERM_COND_TANGENT E0]
   \<and> tpAddCircle E0 (Some tp_full) g_staged (pose_xyz 2 0 0) cart0 cart0 0 2 100 200 1000 0 0
       = (-1, Some tp_full, g0\<lparr>syncdio := sd0\<lparr>dios := [1]\<rparr>\<rparr>)
   \<and> tpAddRigidTap E0 (Some tp_full) g_staged (pose_xyz 2 0 0) 100 200 1000 0
       = (-1, Some tp_full, g0\<lparr>syncdio := sd0\<lparr>dios := [1]\<rparr>\<rparr>)"
proof -
  have t: "map term_cond (q_items (queue tp_full)) = [TC_TERM_COND_PARABOLIC E0]"
    "map term_cond (q_items (queue (last_promoted E0 tp_full))) = [TC_TERM_COND_TANGENT E0]"
    by (simp_all add: last_promoted_def tp_full_def tpSetSpindleSync_def planner_x1_def
        segment_to_def ex_defs add_defs Let_def)
  from append_on_full_queue [OF tp_full_facts(1), where E = E0 and g = g_staged
      and end' = "pose_xyz 2 0 0" and type' = 2 and vel = 100 and im = 200 and acc = 1000
      and en = 0 and ats = 0 and ir = "-1" and center' = cart0 and normal' = cart0 and turn = 0]
  show ?thesis
    using tp_full_facts tp_full_promotes t by (simp add: g_staged_taken)
qed

text \<open>
  The statement of claim C8 fails for \<^verbatim>\<open>tpAddLine\<close>: with one line to (1, 0, 0)
  in a queue of capacity 1, the call for the collinear line to (2, 0, 0) returns -1,
  and the planner it leaves is not the one before the call: the queued line went
  from Parabolic to Tangent.
\<close>

theorem tpAddLine_full_queue_counterexample:
  "q_size (queue (planner_x1 1 2)) \<le> length (q_items (queue (planner_x1 1 2)))
   \<and> fst (tpAddLine E0 (Some (planner_x1 1 2)) g0 (pose_xyz 2 0 0) 2 100 200 1000 0 0 (-1)) = -1
   \<and> fst (snd (tpAddLine E0 (Some (planner_x1 1 2)) g0 (pose_xyz 2 0 0) 2 100 200 1000 0 0 (-1)))
        \<noteq> Some (planner_x1 1 2)
   \<and> map term_cond (q_items (queue (planner_x1 1 2))) = [TC_TERM_COND_PARABOLIC E0]
   \<and> map term_cond (q_items (queue (planner_after
        (tpAddLine E0 (Some (planner_x1 1 2)) g0 (pose_xyz 2 0 0) 2 100 200 1000 0 0 (-1)))))
      = [TC_TERM_COND_TANGENT E0]"
  by (simp add: planner_x1_def segment_to_def ex_defs add_defs Let_def)

text \<open>
  Claim C2 says that the segment each adding function appends has
  \<open>maxvel \<le> 0.5 * target / cycle_time\<close>. \<^verbatim>\<open>tpAddLine\<close> and \<^verbatim>\<open>tpAddCircle\<close>
  call \<^verbatim>\<open>tpClipVelocityLimit\<close> before they append (lemmas
  \<open>tpAddLine_maxvel_clipped\<close> and \<open>tpAddCircle_maxvel_clipped\<close>);
  \<^verbatim>\<open>tpAddRigidTap\<close> does not. With a cycle time of 1 ms and 0.1 units per
  revolution, a tap from the origin to (0, 0, 1) with \<open>ini_maxvel = 2000\<close> is
  queued with target 2 and \<open>maxvel = 2000\<close>, above the cap of 1000.
\<close>

theorem tpAddRigidTap_maxvel_unclipped:
  "fst (tpAddRigidTap E0 (Some tp_tapping) g0 (pose_xyz 0 0 1) 10 2000 1000 0) = 0
   \<and> (let tp' = planner_after (tpAddRigidTap E0 (Some tp_tapping) g0 (pose_xyz 0 0 1) 10 2000 1000 0);
            tc = last (q_items (queue tp'))
        in maxvel tc = 2000 \<and> target tc = 2 \<and> cycleTime tp' = 1 / 1000
           \<and> \<not> maxvel tc \<le> 0.5 * target tc / cycleTime tp')"
  by (simp add: tp_tapping_def tpSetSpindleSync_def ex_defs add_defs tpAddRigidTap_def Let_def)

subsection \<open>The per-tick profiler\<close>

text \<open>
  Claim C3, as amended. Whenever the new velocity that the profiler computes (after
  the clamp by the requested velocity) is negative, the velocity it reports for the
  tick is 0, and the progress is set to the target exactly when the termination
  condition of the segment is not Tangent or its progress is still below the
  target; a Tangent segment whose progress has reached or passed the target keeps
  its progress, and the overshoot is left to the successor.
\<close>

theorem tcRunCycle_negative_newvel:
  assumes "snd (tcRunCycle_newvel E g tp tc) < 0"
  shows "fst (snd (tcRunCycle E g tp tc)) = 0
         \<and> progress (fst (tcRunCycle E g tp tc)) =
             (if term_cond tc \<noteq> TC_TERM_COND_TANGENT E \<or> progress tc < target tc
              then target tc else progress tc)
         \<and> target (fst (tcRunCycle E g tp tc)) = target tc"
  using assms
  by (cases "tcRunCycle_newvel E g tp tc") (auto simp add: tcRunCycle_def Let_def)

lemma sqrt_sixteenth: "sqrt (1 / 16) = 1 / 4"
  by (rule real_sqrt_unique) (simp_all add: power2_eq_square)

lemma tc_late_newvel: "tcRunCycle_newvel E0 g0 (tp_idle 4 cond) (tc_late cond) = (- 1 / 4, - 1 / 4)"
  by (simp add: tc_late_def segment_to_def ex_defs add_defs tcRunCycle_newvel_def tpGetReqVel_def tpGetFinalVel_def
      tpGetFeedOverride_def Let_def sqrt_sixteenth)

theorem tcRunCycle_negative_newvel_witness:
  "snd (tcRunCycle_newvel E0 g0 (tp_idle 4 2) (tc_late 2)) < 0
   \<and> term_cond (tc_late 2) \<noteq> TC_TERM_COND_TANGENT E0
   \<and> fst (snd (tcRunCycle E0 g0 (tp_idle 4 2) (tc_late 2))) = 0
   \<and> progress (fst (tcRunCycle E0 g0 (tp_idle 4 2) (tc_late 2))) = 2
   \<and> target (tc_late 2) = 2"
proof -
  have a: "snd (tcRunCycle_newvel E0 g0 (tp_idle 4 2) (tc_late 2)) < 0"
    by (simp add: tc_late_newvel)
  have b: "term_cond (tc_late 2) \<noteq> TC_TERM_COND_TANGENT E0" "target (tc_late 2) = 2"
    by (simp_all add: tc_late_def segment_to_def ex_defs add_defs Let_def)
  from tcRunCycle_negative_newvel [OF a] a b show ?thesis by simp
qed

text \<open>
  The statement of claim C3 fails for a Tangent segment that is still short of its
  target: its progress is set to the target all the same. And the branch does not
  write \<open>currentvel\<close>: the segment keeps the velocity 100 it had.
\<close>

theorem tcRunCycle_tangent_counterexample:
  "snd (tcRunCycle_newvel E0 g0 (tp_idle 4 3) (tc_late 3)) < 0
   \<and> term_cond (tc_late 3) = TC_TERM_COND_TANGENT E0
   \<and> progress (tc_late 3) = 62403 / 32000
   \<and> progress (tc_late 3) < target (tc_late 3)
   \<and> progress (fst (tcRunCycle E0 g0 (tp_idle 4 3) (tc_late 3))) = 2
   \<and> currentvel (fst (tcRunCycle E0 g0 (tp_idle 4 3) (tc_late 3))) = 100"
  by (simp add: tc_late_newvel tcRunCycle_def Let_def) (simp add: tc_late_def segment_to_def ex_defs add_defs Let_def)

subsection \<open>The look-ahead optimiser\<close>

lemma tpRunOptimization_loop_step:
  assumes "len = int (length (q_items q))" and "1 \<le> x"
  shows "tpRunOptimization_loop E tp len walk x q =
    (if x < walk \<and> x < len
        \<and> term_cond (q_items q ! nat (len - x - 1)) = TC_TERM_COND_TANGENT E
        \<and> \<not> 0 < progress (q_items q ! nat (len - x - 1))
     then (if atpeak (q_items q ! nat (len - x)) \<noteq> 0
           then tcqStore q (len - x - 1)
                  (lookahead_result tp (q_items q ! nat (len - x - 1)) (q_items q ! nat (len - x)))
           else tpRunOptimization_loop E tp len walk (x + 1)
                  (tcqStore q (len - x - 1)
                     (lookahead_result tp (q_items q ! nat (len - x - 1)) (q_items q ! nat (len - x)))))
     else q)"
  using assms
  apply (subst tpRunOptimization_loop.simps)
  apply (simp add: tcqItem_def tcqLen_def Let_def lookahead_result_def lookahead_vs_def pmSqrt_def
      pmSq_def power2_eq_square min_def)
  done

text \<open>The same step with the round as a natural number.\<close>

lemma tpRunOptimization_loop_round:
  assumes "n = length (q_items q)" and "1 \<le> x"
  shows "tpRunOptimization_loop E tp (int n) walk (int x) q =
    (if int x < walk \<and> x < n
        \<and> term_cond (q_items q ! (n - 1 - x)) = TC_TERM_COND_TANGENT E
        \<and> \<not> 0 < progress (q_items q ! (n - 1 - x))
     then (if atpeak (q_items q ! (n - x)) \<noteq> 0
           then q\<lparr>q_items := (q_items q)[n - 1 - x :=
                  lookahead_result tp (q_items q ! (n - 1 - x)) (q_items q ! (n - x))]\<rparr>
           else tpRunOptimization_loop E tp (int n) walk (int (Suc x))
                  (q\<lparr>q_items := (q_items q)[n - 1 - x :=
                     lookahead_result tp (q_items q ! (n - 1 - x)) (q_items q ! (n - x))]\<rparr>))
     else q)"
proof -
  have len: "int n = int (length (q_items q))" using assms by simp
  have x1: "1 \<le> int x" using assms by simp
  have i: "nat (int n - int x - 1) = n - 1 - x" "nat (int n - int x) = n - x"
    by simp_all
  have s: "int x + 1 = int (Suc x)" by simp
  show ?thesis
    unfolding tpRunOptimization_loop_step [OF len x1, of E tp walk] i s tcqStore_def
    by simp
qed


lemma tpRunOptimization_loop_reach:
  assumes "n = length (q_items q)" and "1 \<le> x"
  shows "length (q_items (tpRunOptimization_loop E tp (int n) walk (int x) q)) = n
     \<and> (\<forall>j. n - x \<le> j \<longrightarrow> j < n \<longrightarrow>
            q_items (tpRunOptimization_loop E tp (int n) walk (int x) q) ! j = q_items q ! j)
     \<and> (\<forall>r. x \<le> r \<longrightarrow> r < n \<longrightarrow>
            q_items (tpRunOptimization_loop E tp (int n) walk (int x) q) ! (n - 1 - r) =
              (if walk_reached E walk x (q_items q)
                    (q_items (tpRunOptimization_loop E tp (int n) walk (int x) q)) r
               then lookahead_result tp (q_items q ! (n - 1 - r))
                      (q_items (tpRunOptimization_loop E tp (int n) walk (int x) q) ! (n - r))
               else q_items q ! (n - 1 - r)))"
  using assms
proof (induction "nat (walk - int x)" arbitrary: x q rule: less_induct)
  case less
  define its where "its = q_items q"
  define p where "p = n - 1 - x"
  define new where "new = lookahead_result tp (its ! p) (its ! (n - x))"
  define q' where "q' = q\<lparr>q_items := its[p := new]\<rparr>"
  define res where "res = q_items (tpRunOptimization_loop E tp (int n) walk (int x) q)"
  define C where "C \<longleftrightarrow> int x < walk \<and> x < n
        \<and> term_cond (its ! p) = TC_TERM_COND_TANGENT E \<and> \<not> 0 < progress (its ! p)"
  have n: "n = length its" using less.prems by (simp add: its_def)
  note step = tpRunOptimization_loop_round [OF less.prems, of E tp walk,
      folded its_def, folded p_def, folded new_def, folded q'_def, folded C_def]
  have goal: "length res = n
     \<and> (\<forall>j. n - x \<le> j \<longrightarrow> j < n \<longrightarrow> res ! j = its ! j)
     \<and> (\<forall>r. x \<le> r \<longrightarrow> r < n \<longrightarrow>
            res ! (n - 1 - r) =
              (if walk_reached E walk x its res r
               then lookahead_result tp (its ! (n - 1 - r)) (res ! (n - r))
               else its ! (n - 1 - r)))"
  proof (cases C)
    case False
    then have r: "res = its" using step by (simp add: res_def its_def)
    have "\<not> walk_reached E walk x its res r" if "x \<le> r" for r
      using False that unfolding walk_reached_def C_def p_def n by blast
    then show ?thesis using r n by simp
  next
    case True
    then have xs: "int x < walk" "x < n" and tg: "term_cond (its ! p) = TC_TERM_COND_TANGENT E"
      and pg: "\<not> 0 < progress (its ! p)" by (auto simp: C_def)
    have px: "n - x = Suc p" "p < n" "Suc p < n" using xs less.prems by (simp_all add: p_def)
    have new': "new = lookahead_result tp (its ! p) (its ! Suc p)"
      by (simp add: new_def px)
    have pe: "length its - Suc x = p" "n - Suc x = p"
      using n by (simp_all add: p_def)
    have at_x: "walk_reached E walk x its rs x" for rs
      unfolding walk_reached_def using True by (auto simp: C_def p_def n)
    show ?thesis
    proof (cases "atpeak (its ! (n - x)) \<noteq> 0")
      case True
      then have r: "res = its[p := new]"
        using step \<open>C\<close> by (simp add: res_def q'_def)
      have no: "\<not> walk_reached E walk x its res r" if "x < r" for r
      proof
        assume "walk_reached E walk x its res r"
        then have "atpeak (res ! (length its - x)) = 0"
          using that unfolding walk_reached_def by auto
        then show False using True px r n by simp
      qed
      show ?thesis
      proof (intro conjI allI impI)
        show "length res = n" using r n by simp
      next
        fix j assume "n - x \<le> j" "j < n"
        then show "res ! j = its ! j" using r px by simp
      next
        fix r assume xr: "x \<le> r" and rn: "r < n"
        show "res ! (n - 1 - r) =
              (if walk_reached E walk x its res r
               then lookahead_result tp (its ! (n - 1 - r)) (res ! (n - r))
               else its ! (n - 1 - r))"
        proof (cases "r = x")
          case True
          then show ?thesis
            using at_x [of res] r px n new' by (simp add: pe)
        next
          case False
          then have "x < r" using xr by simp
          moreover have "n - 1 - r \<noteq> p" using \<open>x < r\<close> rn unfolding p_def by arith
          ultimately show ?thesis using no r by simp
        qed
      qed
    next
      case False
      then have ap: "atpeak (its ! Suc p) = 0" by (simp add: px)
      have eq: "tpRunOptimization_loop E tp (int n) walk (int x) q
                 = tpRunOptimization_loop E tp (int n) walk (int (Suc x)) q'"
        using step \<open>C\<close> False by simp
      have "nat (walk - int (Suc x)) < nat (walk - int x)" using xs by simp
      moreover have "n = length (q_items q')" using n by (simp add: q'_def)
      moreover have "1 \<le> Suc x" by simp
      ultimately have IH:
        "length (q_items (tpRunOptimization_loop E tp (int n) walk (int (Suc x)) q')) = n
         \<and> (\<forall>j. n - Suc x \<le> j \<longrightarrow> j < n \<longrightarrow>
            q_items (tpRunOptimization_loop E tp (int n) walk (int (Suc x)) q') ! j = q_items q' ! j)
         \<and> (\<forall>r. Suc x \<le> r \<longrightarrow> r < n \<longrightarrow>
            q_items (tpRunOptimization_loop E tp (int n) walk (int (Suc x)) q') ! (n - 1 - r) =
              (if walk_reached E walk (Suc x) (q_items q')
                    (q_items (tpRunOptimization_loop E tp (int n) walk (int (Suc x)) q')) r
               then lookahead_result tp (q_items q' ! (n - 1 - r))
                      (q_items (tpRunOptimization_loop E tp (int n) walk (int (Suc x)) q') ! (n - r))
               else q_items q' ! (n - 1 - r)))"
        by (rule less.hyps)
      have res': "res = q_items (tpRunOptimization_loop E tp (int n) walk (int (Suc x)) q')"
        by (simp add: res_def eq)
      have q'i: "q_items q' = its[p := new]" by (simp add: q'_def)
      have nsx: "n - Suc x = p" by (simp add: p_def)
      from IH have len_res: "length res = n"
        and low: "\<And>j. p \<le> j \<Longrightarrow> j < n \<Longrightarrow> res ! j = (its[p := new]) ! j"
        and up: "\<And>r. Suc x \<le> r \<Longrightarrow> r < n \<Longrightarrow>
            res ! (n - 1 - r) =
              (if walk_reached E walk (Suc x) (its[p := new]) res r
               then lookahead_result tp ((its[p := new]) ! (n - 1 - r)) (res ! (n - r))
               else (its[p := new]) ! (n - 1 - r))"
        unfolding res' [symmetric] q'i nsx by blast+
      have resp: "res ! p = new" using low [of p] px n by simp
      have ressp: "res ! Suc p = its ! Suc p" using low [of "Suc p"] px xs by simp
      have same: "walk_reached E walk (Suc x) (its[p := new]) res r
                   \<longleftrightarrow> walk_reached E walk x its res r" if "Suc x \<le> r" "r < n" for r
      proof
        assume a: "walk_reached E walk (Suc x) (its[p := new]) res r"
        show "walk_reached E walk x its res r"
          unfolding walk_reached_def
        proof (rule conjI; intro allI impI)
          fix k assume k: "x \<le> k \<and> k \<le> r"
          show "int k < walk \<and> k < length its
                \<and> term_cond (its ! (length its - 1 - k)) = TC_TERM_COND_TANGENT E
                \<and> \<not> 0 < progress (its ! (length its - 1 - k))"
          proof (cases "k = x")
            case True
            then show ?thesis using \<open>C\<close> by (simp add: C_def p_def n)
          next
            case False
            then have sk: "Suc x \<le> k \<and> k \<le> r" using k by simp
            then have "length its - 1 - k \<noteq> p" using that n unfolding p_def by arith
            then show ?thesis
              using a sk unfolding walk_reached_def by (auto simp: nth_list_update)
          qed
        next
          fix k assume k: "x \<le> k \<and> k < r"
          show "atpeak (res ! (length its - k)) = 0"
          proof (cases "k = x")
            case True
            then show ?thesis using ap ressp px n by simp
          next
            case False
            then have "Suc x \<le> k \<and> k < r" using k by simp
            then show ?thesis using a unfolding walk_reached_def by auto
          qed
        qed
      next
        assume a: "walk_reached E walk x its res r"
        show "walk_reached E walk (Suc x) (its[p := new]) res r"
          unfolding walk_reached_def
        proof (rule conjI; intro allI impI)
          fix k assume k: "Suc x \<le> k \<and> k \<le> r"
          then have "length its - 1 - k \<noteq> p" using that n unfolding p_def by arith
          moreover have "int k < walk \<and> k < length its
                \<and> term_cond (its ! (length its - 1 - k)) = TC_TERM_COND_TANGENT E
                \<and> \<not> 0 < progress (its ! (length its - 1 - k))"
            using a k unfolding walk_reached_def by auto
          ultimately show "int k < walk \<and> k < length (its[p := new])
                \<and> term_cond ((its[p := new]) ! (length (its[p := new]) - 1 - k)) = TC_TERM_COND_TANGENT E
                \<and> \<not> 0 < progress ((its[p := new]) ! (length (its[p := new]) - 1 - k))"
            by (simp add: nth_list_update)
        next
          fix k assume k: "Suc x \<le> k \<and> k < r"
          then show "atpeak (res ! (length (its[p := new]) - k)) = 0"
            using a unfolding walk_reached_def by auto
        qed
      qed
      show ?thesis
      proof (intro conjI allI impI)
        show "length res = n" by (rule len_res)
      next
        fix j assume "n - x \<le> j" "j < n"
        then show "res ! j = its ! j" using low [of j] px by simp
      next
        fix r assume xr: "x \<le> r" and rn: "r < n"
        show "res ! (n - 1 - r) =
              (if walk_reached E walk x its res r
               then lookahead_result tp (its ! (n - 1 - r)) (res ! (n - r))
               else its ! (n - 1 - r))"
        proof (cases "r = x")
          case True
          then show ?thesis
            using at_x [of res] resp ressp px new' by (simp add: pe)
        next
          case False
          then have sr: "Suc x \<le> r" using xr by simp
          then have "n - 1 - r \<noteq> p" using rn unfolding p_def by arith
          then show ?thesis using up [OF sr rn] same [OF sr rn] by simp
        qed
      qed
    qed
  qed
  then show ?case by (simp add: res_def its_def)
qed

text \<open>
  Claim C4, as amended. After a run of the optimiser the queue has the length it
  had and its last segment is as it was. For every pair that the walk reached,
  the previous segment is the \<open>lookahead_result\<close> of its successor as the run
  leaves it: its final velocity is the smaller of
  \<open>vs = sqrt (finalvel\<^sup>2 + 2 * scaled_accel * target)\<close> and \<open>maxvel\<close>, both of the
  successor, and it is marked as a peak exactly when \<open>vs > maxvel\<close>; its other
  fields are as they were. Every other segment is as it was. So the final velocity
  of an updated segment is bounded by the maximal velocity of its successor (not
  by its own), and a segment that is not Tangent keeps its final velocity (0 when
  it was 0).
\<close>

theorem tpRunOptimization_lookahead:
  "fst (tpRunOptimization E tp) = 0
   \<and> length (q_items (queue (snd (tpRunOptimization E tp)))) = length (q_items (queue tp))
   \<and> (\<forall>r. 1 \<le> r \<longrightarrow> r < length (q_items (queue tp)) \<longrightarrow>
         q_items (queue (snd (tpRunOptimization E tp))) ! (length (q_items (queue tp)) - 1 - r) =
           (if walk_reached E (TP_LOOKAHEAD_DEPTH E) 1 (q_items (queue tp))
                 (q_items (queue (snd (tpRunOptimization E tp)))) r
            then lookahead_result tp (q_items (queue tp) ! (length (q_items (queue tp)) - 1 - r))
                   (q_items (queue (snd (tpRunOptimization E tp))) ! (length (q_items (queue tp)) - r))
            else q_items (queue tp) ! (length (q_items (queue tp)) - 1 - r)))
   \<and> (q_items (queue tp) \<noteq> [] \<longrightarrow>
         q_items (queue (snd (tpRunOptimization E tp))) ! (length (q_items (queue tp)) - 1)
           = q_items (queue tp) ! (length (q_items (queue tp)) - 1))
   \<and> (\<forall>j < length (q_items (queue tp)).
         term_cond (q_items (queue tp) ! j) \<noteq> TC_TERM_COND_TANGENT E
         \<longrightarrow> q_items (queue (snd (tpRunOptimization E tp))) ! j = q_items (queue tp) ! j)"
proof (cases "tcqLen (queue tp) < 2")
  case True
  then have "tpRunOptimization E tp = (0, tp)"
    by (simp add: tpRunOptimization_def Let_def)
  moreover have "\<not> (1 \<le> r \<and> r < length (q_items (queue tp)))" for r
    using True by (simp add: tcqLen_def)
  ultimately show ?thesis by auto
next
  case False
  define its where "its = q_items (queue tp)"
  define n where "n = length its"
  define walk where "walk = TP_LOOKAHEAD_DEPTH E"
  define res where "res = q_items (tpRunOptimization_loop E tp (int n) walk 1 (queue tp))"
  have n2: "2 \<le> n" using False by (simp add: tcqLen_def n_def its_def)
  have run: "tpRunOptimization E tp =
      (0, tp\<lparr>queue := tpRunOptimization_loop E tp (int n) walk 1 (queue tp)\<rparr>)"
    using False by (simp add: tpRunOptimization_def Let_def tcqLen_def n_def its_def walk_def)
  have sel: "fst (tpRunOptimization E tp) = 0"
    "q_items (queue (snd (tpRunOptimization E tp))) = res"
    by (simp_all add: run res_def)
  have len: "n = length (q_items (queue tp))" by (simp add: n_def its_def)
  note R = tpRunOptimization_loop_reach [OF len, of 1 E tp walk, unfolded of_nat_1,
      folded res_def its_def]
  have l: "length res = n" using R by blast
  have low: "res ! j = its ! j" if "n - 1 \<le> j" "j < n" for j
    using R that by blast
  have up: "res ! (n - 1 - r) =
              (if walk_reached E walk 1 its res r
               then lookahead_result tp (its ! (n - 1 - r)) (res ! (n - r))
               else its ! (n - 1 - r))" if "1 \<le> r" "r < n" for r
    using R that by blast
  have lst: "res ! (n - 1) = its ! (n - 1)"
    using low [of "n - 1"] n2 by simp
  have keep: "res ! j = its ! j"
    if j: "j < n" and nt: "term_cond (its ! j) \<noteq> TC_TERM_COND_TANGENT E" for j
  proof (cases "j = n - 1")
    case True
    then show ?thesis using low [of j] j by simp
  next
    case False
    define r where "r = n - 1 - j"
    have r: "1 \<le> r" "r < n" "n - 1 - r = j" using False j by (simp_all add: r_def)
    have "\<not> walk_reached E walk 1 its res r"
    proof
      assume "walk_reached E walk 1 its res r"
      then have "term_cond (its ! (length its - 1 - r)) = TC_TERM_COND_TANGENT E"
        using r unfolding walk_reached_def by auto
      then show False using nt r by (simp add: n_def [symmetric])
    qed
    then show ?thesis using up [OF r(1) r(2)] r by simp
  qed
  have ne: "its \<noteq> []" using n2 by (auto simp: n_def)
  show ?thesis
    unfolding sel its_def [symmetric] n_def [symmetric] walk_def [symmetric]
    using l up lst keep by auto
qed

lemma planner_two_queue:
  "length (q_items (queue planner_two)) = 2"
  "term_cond (q_items (queue planner_two) ! 0) = TC_TERM_COND_TANGENT E0"
  "progress (q_items (queue planner_two) ! 0) = 0"
  "maxvel (q_items (queue planner_two) ! 0) = 1"
  "maxvel (q_items (queue planner_two) ! 1) = 2"
  "lookahead_vs planner_two (q_items (queue planner_two) ! 1) = 2"
  by (simp_all add: planner_two_def ex_defs add_defs lookahead_vs_def Let_def)

theorem tpRunOptimization_lookahead_witness:
  "walk_reached E0 (TP_LOOKAHEAD_DEPTH E0) 1 (q_items (queue planner_two))
      (q_items (queue (snd (tpRunOptimization E0 planner_two)))) 1
   \<and> q_items (queue (snd (tpRunOptimization E0 planner_two))) ! 0 =
        lookahead_result planner_two (q_items (queue planner_two) ! 0)
          (q_items (queue (snd (tpRunOptimization E0 planner_two))) ! 1)
   \<and> q_items (queue (snd (tpRunOptimization E0 planner_two))) ! 1 = q_items (queue planner_two) ! 1
   \<and> finalvel (q_items (queue (snd (tpRunOptimization E0 planner_two))) ! 0) = 2"
proof -
  let ?its = "q_items (queue planner_two)"
  let ?its' = "q_items (queue (snd (tpRunOptimization E0 planner_two)))"
  have w: "walk_reached E0 (TP_LOOKAHEAD_DEPTH E0) 1 ?its ?its' 1"
    unfolding walk_reached_def
  proof (rule conjI; intro allI impI)
    fix k :: nat assume "1 \<le> k \<and> k \<le> 1"
    then have "k = 1" by simp
    then show "int k < TP_LOOKAHEAD_DEPTH E0 \<and> k < length ?its
        \<and> term_cond (?its ! (length ?its - 1 - k)) = TC_TERM_COND_TANGENT E0
        \<and> \<not> 0 < progress (?its ! (length ?its - 1 - k))"
      using planner_two_queue by (simp add: E0_def)
  next
    fix k :: nat assume "1 \<le> k \<and> k < 1"
    then show "atpeak (?its' ! (length ?its - k)) = 0" by simp
  qed
  have ne: "?its \<noteq> []"
    using planner_two_queue(1) by auto
  have 1: "?its' ! 1 = ?its ! 1"
    using tpRunOptimization_lookahead [of E0 planner_two] ne planner_two_queue(1) by simp
  from tpRunOptimization_lookahead [of E0 planner_two]
  have A: "\<forall>r. 1 \<le> r \<longrightarrow> r < length ?its \<longrightarrow>
         ?its' ! (length ?its - 1 - r) =
           (if walk_reached E0 (TP_LOOKAHEAD_DEPTH E0) 1 ?its ?its' r
            then lookahead_result planner_two (?its ! (length ?its - 1 - r))
                   (?its' ! (length ?its - r))
            else ?its ! (length ?its - 1 - r))"
    by blast
  have 0: "?its' ! 0 = lookahead_result planner_two (?its ! 0) (?its' ! 1)"
    using A [rule_format, of 1] w planner_two_queue(1) by simp
  show ?thesis
    using w 0 1 planner_two_queue by (simp add: lookahead_result_def)
qed

text \<open>
  The statement of claim C4 fails in two places for the two queued lines of
  \<open>planner_two\<close>. For the second line \<open>vs\<close> equals \<open>maxvel\<close> (both are 2),
  and the first line is not marked as a peak: the code tests \<open>vs > maxvel\<close>.
  And the first line ends with the final velocity 2, above its own maximal
  velocity 1.
\<close>

theorem tpRunOptimization_peak_counterexample:
  "term_cond (q_items (queue planner_two) ! 0) = TC_TERM_COND_TANGENT E0
   \<and> progress (q_items (queue planner_two) ! 0) = 0
   \<and> lookahead_vs planner_two (q_items (queue planner_two) ! 1) = 2
   \<and> maxvel (q_items (queue planner_two) ! 1) = 2
   \<and> atpeak (q_items (queue (snd (tpRunOptimization E0 planner_two))) ! 0) = 0
   \<and> finalvel (q_items (queue (snd (tpRunOptimization E0 planner_two))) ! 0) = 2
   \<and> maxvel (q_items (queue (snd (tpRunOptimization E0 planner_two))) ! 0) = 1"
  by (simp add: planner_two_def ex_defs add_defs lookahead_vs_def tpRunOptimization_def
      tpRunOptimization_loop.simps tcqItem_def Let_def)

end
